theory Spec2Isabelle
  imports Complex_Main
begin

section \<open>Conventions\<close>

text \<open>
  The program is one JavaScript file, \<^verbatim>\<open>game.js\<close>: a grid raycaster with a player,
  enemies, two weapons and a frame loop. Its numbers are IEEE doubles; the model reads
  them as mathematical reals (\<^typ>\<open>real\<close>), and as integers (\<^typ>\<open>int\<close>) where the
  program only ever stores whole numbers (grid indices, ammunition, enemy health, kills).
  \<^verbatim>\<open>Infinity\<close> is a value of its own wherever the program uses it, and where a division
  can have a zero divisor (the floor caster) the numbers carry the infinities and NaN
  that JavaScript computes there. Module-level variables
  become fields of the record \<open>game\<close>; a function that mutates them takes the record and
  returns the new one. Objects held in arrays are identified by their index.
  Field names carry a short prefix where two classes of the source share a name
  (\<^verbatim>\<open>player.x\<close> is \<open>plx\<close>, \<^verbatim>\<open>enemy.x\<close> is \<open>enx\<close>, \<^verbatim>\<open>decoration.x\<close> is \<open>dcx\<close>).
  Of the drawing calls only the geometry is kept (which rectangle, which pixel); the HUD
  (\<^verbatim>\<open>updateUI\<close>, \<^verbatim>\<open>reloadInfo\<close>), textures and audio are outside the model, but for one
  bit: whether the wall texture has finished loading, on which \<^verbatim>\<open>castRays\<close> branches.
  An exception is a value of the result type.
\<close>

section \<open>Constants\<close>

definition TARGET_KILLS :: int where
  "TARGET_KILLS = 100"

definition FOV :: real where
  "FOV = pi * 100 / 180"

definition numRays :: nat where
  "numRays = 480"

definition maxRenderDist :: real where
  "maxRenderDist = 20"

definition hudHeight :: int where
  "hudHeight = 80"

text \<open>
  The canvas element belongs to the HTML page, which is not part of the sources: its
  pixel size is a parameter of every definition that reads \<^verbatim>\<open>width\<close> or \<^verbatim>\<open>height\<close>.
\<close>

record canvas =
  width :: int
  height :: int

definition screenHeight :: "canvas \<Rightarrow> real" where
  "screenHeight cv = real_of_int (height cv - hudHeight)"

definition stripWidth :: "canvas \<Rightarrow> real" where
  "stripWidth cv = real_of_int (width cv) / real numRays"

definition projectionPlane :: "canvas \<Rightarrow> real" where
  "projectionPlane cv = (screenHeight cv / 2) / tan (FOV / 2)"

section \<open>The map\<close>

definition map_grid :: "int list list" where
  "map_grid =
    [[1,1,1,1,1,1,1,1,1,1,1,1,1,1,1,1],
     [1,0,0,0,0,0,0,0,0,0,0,0,0,0,0,1],
     [1,0,0,0,0,1,1,1,0,0,1,1,1,0,0,1],
     [1,0,0,0,0,1,0,1,0,0,1,0,1,0,0,1],
     [1,0,0,0,0,1,0,1,0,0,1,0,1,0,0,1],
     [1,0,0,0,0,1,1,1,0,0,1,1,1,0,0,1],
     [1,0,0,0,0,0,0,0,0,0,0,0,0,0,0,1],
     [1,0,0,1,1,1,0,0,0,0,0,1,1,1,0,1],
     [1,0,0,1,0,1,0,0,0,0,0,1,0,1,0,1],
     [1,0,0,1,1,1,0,0,0,0,0,1,1,1,0,1],
     [1,0,0,0,0,0,0,0,0,0,0,0,0,0,0,1],
     [1,0,0,0,0,1,1,1,0,0,1,1,1,0,0,1],
     [1,0,0,0,0,1,0,1,0,0,1,0,1,0,0,1],
     [1,0,0,0,0,1,0,1,0,0,1,0,1,0,0,1],
     [1,0,0,0,0,1,1,1,0,0,1,1,1,0,0,1],
     [1,1,1,1,1,1,1,1,1,1,1,1,1,1,1,1]]"

definition mapWidth :: int where
  "mapWidth = int (length (map_grid ! 0))"

definition mapHeight :: int where
  "mapHeight = int (length map_grid)"

text \<open>
  \<^verbatim>\<open>map[r][c]\<close> for arbitrary integers: a row index outside the array yields
  \<^verbatim>\<open>undefined\<close>, and indexing \<^verbatim>\<open>undefined\<close> throws a TypeError; a column index outside
  the row yields \<^verbatim>\<open>undefined\<close> (here \<open>Inr None\<close>), which is not \<^verbatim>\<open>=== 0\<close>.
  The other two errors of the program are raised in \<^verbatim>\<open>castRays\<close>.
\<close>

datatype error = TypeError | ReferenceError | SyntaxError

definition mapAt :: "int \<Rightarrow> int \<Rightarrow> error + int option" where
  "mapAt r c =
     (if 0 \<le> r \<and> r < int (length map_grid)
      then (let row = map_grid ! nat r
            in Inr (if 0 \<le> c \<and> c < int (length row) then Some (row ! nat c) else None))
      else Inl TypeError)"

section \<open>Data model\<close>

record player =
  plx :: real
  ply :: real
  angle :: real
  moveForward :: bool
  moveBackward :: bool
  turnLeft :: bool
  turnRight :: bool
  strafeLeft :: bool
  strafeRight :: bool

text \<open>\<^verbatim>\<open>totalAmmo\<close> is \<^verbatim>\<open>Infinity\<close> for both weapons of the source; a finite reserve is a number.\<close>

datatype ammo = Rounds int | Infinity

record weapon =
  name :: string
  ammoCapacity :: int
  magazine :: int
  totalAmmo :: ammo
  reloadTime :: int
  damage :: int

datatype weaponKey = shotgun | laser

record enemy =
  enx :: real
  eny :: real
  health :: int
  alive :: bool
  dying :: bool
  deathTimer :: real
  scale :: real

datatype sprite = decorTreeImg | decorRockImg | decorBushImg

record decoration =
  dcx :: real
  dcy :: real
  sprite :: sprite

text \<open>
  \<open>reloadTimer\<close> is the pending \<^verbatim>\<open>setTimeout\<close> callback, if any; the callback closes over
  the weapon object that was selected when the reload began, so the field holds its key.
\<close>

datatype gameState = menu | playing

record game =
  gameState :: gameState
  player :: player
  weapons :: "weaponKey \<Rightarrow> weapon"
  selectedWeapon :: weaponKey
  enemies :: "enemy list"
  decorations :: "decoration list"
  kills :: int
  reloading :: bool
  reloadTimer :: "weaponKey option"
  gameOver :: bool
  muzzleTimer :: real
  bulletTimer :: real

definition initialWeapons :: "weaponKey \<Rightarrow> weapon" where
  "initialWeapons k =
     (case k of
        shotgun \<Rightarrow> \<lparr>name = ''Rifle'', ammoCapacity = 8, magazine = 8,
                    totalAmmo = Infinity, reloadTime = 2000, damage = 60\<rparr>
      | laser \<Rightarrow> \<lparr>name = ''Laser Gun'', ammoCapacity = 20, magazine = 20,
                  totalAmmo = Infinity, reloadTime = 1500, damage = 40\<rparr>)"

definition initialPlayer :: player where
  "initialPlayer =
     \<lparr>plx = 2.5, ply = 2.5, angle = 0, moveForward = False, moveBackward = False,
      turnLeft = False, turnRight = False, strafeLeft = False, strafeRight = False\<rparr>"

text \<open>The constructor of class \<^verbatim>\<open>Enemy\<close>.\<close>

definition newEnemy :: "real \<Rightarrow> real \<Rightarrow> enemy" where
  "newEnemy px py =
     \<lparr>enx = px, eny = py, health = 60, alive = True, dying = False, deathTimer = 0, scale = 1\<rparr>"

section \<open>Arithmetic with Infinity\<close>

text \<open>\<^verbatim>\<open>totalAmmo > 0\<close>, \<^verbatim>\<open>Math.min(needed, totalAmmo)\<close> and \<^verbatim>\<open>totalAmmo -= load\<close>.\<close>

fun ammoPositive :: "ammo \<Rightarrow> bool" where
  "ammoPositive Infinity = True"
| "ammoPositive (Rounds n) = (0 < n)"

fun minAmmo :: "int \<Rightarrow> ammo \<Rightarrow> int" where
  "minAmmo needed Infinity = needed"
| "minAmmo needed (Rounds n) = min needed n"

fun subAmmo :: "ammo \<Rightarrow> int \<Rightarrow> ammo" where
  "subAmmo Infinity load = Infinity"
| "subAmmo (Rounds n) load = Rounds (n - load)"

section \<open>Angles\<close>

text \<open>
  \<^verbatim>\<open>Math.atan2(y, x)\<close> on reals, and the two normalisation loops
  \<^verbatim>\<open>while (a < -Math.PI) a += 2 * Math.PI; while (a > Math.PI) a -= 2 * Math.PI;\<close>
  that the source repeats in \<^verbatim>\<open>shootWeapon\<close>, \<^verbatim>\<open>updatePlayer\<close> and the sprite passes.
\<close>

definition atan2 :: "real \<Rightarrow> real \<Rightarrow> real" where
  "atan2 y x =
     (if 0 < x then arctan (y / x)
      else if x < 0 then (if 0 \<le> y then arctan (y / x) + pi else arctan (y / x) - pi)
      else if 0 < y then pi / 2
      else if y < 0 then - (pi / 2)
      else 0)"

function wrapUp :: "real \<Rightarrow> real" where
  "wrapUp a = (if a < - pi then wrapUp (a + 2 * pi) else a)"
  by pat_completeness auto
termination
proof (relation "measure (\<lambda>a. nat \<lceil>(- pi - a) / (2 * pi)\<rceil>)")
  show "wf (measure (\<lambda>a. nat \<lceil>(- pi - a) / (2 * pi)\<rceil>))" by simp
next
  fix a :: real
  assume lt: "a < - pi"
  define t where "t = (- pi - a) / (2 * pi)"
  have tpos: "0 < t" using lt by (simp add: t_def)
  have shift: "(- pi - (a + 2 * pi)) / (2 * pi) = t - 1"
    by (simp add: t_def field_simps)
  have "0 < \<lceil>t\<rceil>" using tpos by (simp add: ceiling_less_iff less_ceiling_iff)
  then have "nat \<lceil>t - 1\<rceil> < nat \<lceil>t\<rceil>" by simp
  then have "nat \<lceil>(- pi - (a + 2 * pi)) / (2 * pi)\<rceil> < nat \<lceil>(- pi - a) / (2 * pi)\<rceil>"
    by (simp only: shift t_def [symmetric])
  then show "(a + 2 * pi, a) \<in> measure (\<lambda>a. nat \<lceil>(- pi - a) / (2 * pi)\<rceil>)"
    by (simp only: in_measure)
qed

function wrapDown :: "real \<Rightarrow> real" where
  "wrapDown a = (if pi < a then wrapDown (a - 2 * pi) else a)"
  by pat_completeness auto
termination
proof (relation "measure (\<lambda>a. nat \<lceil>(a - pi) / (2 * pi)\<rceil>)")
  show "wf (measure (\<lambda>a. nat \<lceil>(a - pi) / (2 * pi)\<rceil>))" by simp
next
  fix a :: real
  assume lt: "pi < a"
  define t where "t = (a - pi) / (2 * pi)"
  have tpos: "0 < t" using lt by (simp add: t_def)
  have shift: "(a - 2 * pi - pi) / (2 * pi) = t - 1"
    by (simp add: t_def field_simps)
  have "0 < \<lceil>t\<rceil>" using tpos by (simp add: ceiling_less_iff less_ceiling_iff)
  then have "nat \<lceil>t - 1\<rceil> < nat \<lceil>t\<rceil>" by simp
  then have "nat \<lceil>(a - 2 * pi - pi) / (2 * pi)\<rceil> < nat \<lceil>(a - pi) / (2 * pi)\<rceil>"
    by (simp only: shift t_def [symmetric])
  then show "(a - 2 * pi, a) \<in> measure (\<lambda>a. nat \<lceil>(a - pi) / (2 * pi)\<rceil>)"
    by (simp only: in_measure)
qed

declare wrapUp.simps [simp del] wrapDown.simps [simp del]

definition normalizeAngle :: "real \<Rightarrow> real" where
  "normalizeAngle a = wrapDown (wrapUp a)"

section \<open>Combat\<close>

text \<open>
  \<^verbatim>\<open>Enemy.hit(damage)\<close> mutates the enemy and the module-level counter \<^verbatim>\<open>kills\<close>; the
  model returns both. The guard reads \<^verbatim>\<open>alive\<close> only: \<^verbatim>\<open>alive\<close> is cleared by the frame
  loop when the death countdown has run out, not here.
\<close>

definition hit :: "int \<Rightarrow> enemy \<Rightarrow> int \<Rightarrow> enemy \<times> int" where
  "hit dmg this k =
     (if \<not> alive this then (this, k)
      else (let e = this\<lparr>health := health this - dmg\<rparr>
            in if health e \<le> 0
               then (e\<lparr>dying := True, deathTimer := 0.6, scale := 1\<rparr>, k + 1)
               else (e, k)))"

text \<open>
  The death-animation branch of the enemy loop in \<^verbatim>\<open>gameLoop\<close>
  (\<^verbatim>\<open>if (enemy.dying) { ... continue; }\<close>), for one enemy and one frame of \<open>dt\<close> seconds.
\<close>

definition deathAnimation :: "real \<Rightarrow> enemy \<Rightarrow> enemy" where
  "deathAnimation dt e =
     (let e1 = e\<lparr>deathTimer := deathTimer e - dt\<rparr>;
          e2 = e1\<lparr>scale := max 0 (deathTimer e1 / 0.6)\<rparr>
      in if deathTimer e2 \<le> 0 then e2\<lparr>alive := False, dying := False\<rparr> else e2)"

text \<open>The win test at the end of a frame of \<^verbatim>\<open>gameLoop\<close>.\<close>

definition winCheck :: "game \<Rightarrow> game" where
  "winCheck s = (if TARGET_KILLS \<le> kills s then s\<lparr>gameOver := True\<rparr> else s)"

subsection \<open>Reloading\<close>

fun ammoNotPositive :: "ammo \<Rightarrow> bool" where
  "ammoNotPositive Infinity = False"
| "ammoNotPositive (Rounds n) = (n \<le> 0)"

definition reloadWeapon :: "game \<Rightarrow> game" where
  "reloadWeapon s =
     (if reloading s then s
      else (let w = weapons s (selectedWeapon s)
            in if ammoCapacity w \<le> magazine w \<or> ammoNotPositive (totalAmmo w) then s
               else s\<lparr>reloading := True, reloadTimer := Some (selectedWeapon s)\<rparr>))"

text \<open>
  The callback given to \<^verbatim>\<open>setTimeout\<close>, for the weapon \<open>k\<close> it closed over, and the
  event of the timer firing: a pending callback runs once and is gone.
\<close>

definition reloadCallback :: "weaponKey \<Rightarrow> game \<Rightarrow> game" where
  "reloadCallback k s =
     (let w = weapons s k;
          needed = ammoCapacity w - magazine w;
          load = minAmmo needed (totalAmmo w)
      in s\<lparr>weapons := (weapons s)(k := w\<lparr>magazine := magazine w + load,
                                          totalAmmo := subAmmo (totalAmmo w) load\<rparr>),
           reloading := False\<rparr>)"

definition timerFires :: "game \<Rightarrow> game" where
  "timerFires s =
     (case reloadTimer s of
        None \<Rightarrow> s
      | Some k \<Rightarrow> reloadCallback k (s\<lparr>reloadTimer := None\<rparr>))"

subsection \<open>Shooting\<close>

definition threshold :: real where
  "threshold = FOV * 0.05"

definition enemyDist :: "player \<Rightarrow> enemy \<Rightarrow> real" where
  "enemyDist p e =
     (let dx = enx e - plx p; dy = eny e - ply p in sqrt (dx * dx + dy * dy))"

definition aimAngle :: "player \<Rightarrow> enemy \<Rightarrow> real" where
  "aimAngle p e =
     (let dx = enx e - plx p; dy = eny e - ply p
      in normalizeAngle (atan2 dy dx - angle p))"

text \<open>\<^verbatim>\<open>dist < minDist\<close>, where \<^verbatim>\<open>minDist\<close> starts as \<^verbatim>\<open>Infinity\<close> (here \<open>None\<close>).\<close>

fun closer :: "real \<Rightarrow> real option \<Rightarrow> bool" where
  "closer d None = True"
| "closer d (Some m) = (d < m)"

text \<open>
  The \<^verbatim>\<open>for (const enemy of enemies)\<close> loop of \<^verbatim>\<open>shootWeapon\<close>, with its two variables
  \<^verbatim>\<open>target\<close> and \<^verbatim>\<open>minDist\<close>; \<open>i\<close> is the array index of the head of the remaining list.
\<close>

fun scanEnemies :: "player \<Rightarrow> enemy list \<Rightarrow> nat \<Rightarrow> nat option \<Rightarrow> real option \<Rightarrow> nat option" where
  "scanEnemies p [] i target minDist = target"
| "scanEnemies p (e # es) i target minDist =
     (if \<not> alive e then scanEnemies p es (Suc i) target minDist
      else if \<bar>aimAngle p e\<bar> < threshold \<and> closer (enemyDist p e) minDist
           then scanEnemies p es (Suc i) (Some i) (Some (enemyDist p e))
           else scanEnemies p es (Suc i) target minDist)"

definition findTarget :: "player \<Rightarrow> enemy list \<Rightarrow> nat option" where
  "findTarget p es = scanEnemies p es 0 None None"

definition shootWeapon :: "game \<Rightarrow> game" where
  "shootWeapon s =
     (if gameOver s \<or> reloading s then s
      else (let k = selectedWeapon s; weapon = weapons s k
            in if magazine weapon \<le> 0
               then (if ammoPositive (totalAmmo weapon) then reloadWeapon s else s)
               else (let s1 = s\<lparr>weapons := (weapons s)(k := weapon\<lparr>magazine := magazine weapon - 1\<rparr>)\<rparr>;
                         s2 = (case findTarget (player s1) (enemies s1) of
                                 None \<Rightarrow> s1
                               | Some t \<Rightarrow>
                                   (let r = hit (damage weapon) (enemies s1 ! t) (kills s1)
                                    in s1\<lparr>enemies := (enemies s1)[t := fst r], kills := snd r\<rparr>));
                         s3 = s2\<lparr>muzzleTimer := 0.15, bulletTimer := 0.1\<rparr>;
                         w3 = weapons s3 k
                     in if magazine w3 \<le> 0 \<and> ammoPositive (totalAmmo w3)
                        then reloadWeapon s3 else s3)))"

text \<open>
  \<open>eligible\<close> names the test the loop applies to an enemy apart from the running minimum.
  \<open>fired\<close> is the state of \<^verbatim>\<open>shootWeapon\<close> after a shot has gone off and before its
  closing reload test; both are used to state properties, not by the program.
\<close>

definition eligible :: "player \<Rightarrow> enemy \<Rightarrow> bool" where
  "eligible p e = (alive e \<and> \<bar>aimAngle p e\<bar> < threshold)"

definition fired :: "game \<Rightarrow> game" where
  "fired s =
     (let k = selectedWeapon s; weapon = weapons s k;
          s1 = s\<lparr>weapons := (weapons s)(k := weapon\<lparr>magazine := magazine weapon - 1\<rparr>)\<rparr>
      in (case findTarget (player s) (enemies s) of
            None \<Rightarrow> s1
          | Some t \<Rightarrow> s1\<lparr>enemies := (enemies s)[t := fst (hit (damage weapon) (enemies s ! t) (kills s))],
                         kills := snd (hit (damage weapon) (enemies s ! t) (kills s))\<rparr>)
         \<lparr>muzzleTimer := 0.15, bulletTimer := 0.1\<rparr>)"

subsection \<open>Sessions\<close>

text \<open>
  The module-level initial values, and \<^verbatim>\<open>startGame\<close>. The decorations and enemies that
  \<^verbatim>\<open>spawnDecorations\<close> and \<^verbatim>\<open>spawnEnemy\<close> place with \<^verbatim>\<open>Math.random\<close> are parameters.
  \<^verbatim>\<open>startGame\<close> leaves the weapon table as it is. \<open>selectWeapon\<close> is the keydown handler
  for a digit key: it returns at once on the menu and when the game is over.
\<close>

definition loadState :: game where
  "loadState =
     \<lparr>gameState = menu, player = initialPlayer, weapons = initialWeapons,
      selectedWeapon = shotgun,
      enemies = [], decorations = [], kills = 0, reloading = False, reloadTimer = None,
      gameOver = False, muzzleTimer = 0, bulletTimer = 0\<rparr>"

definition startGame :: "decoration list \<Rightarrow> enemy list \<Rightarrow> game \<Rightarrow> game" where
  "startGame spawnedDecorations spawnedEnemies s =
     s\<lparr>kills := 0, selectedWeapon := shotgun, reloading := False, reloadTimer := None,
       gameOver := False,
       player := \<lparr>plx = plx initialPlayer, ply = ply initialPlayer, angle = angle initialPlayer,
                   moveForward = False, moveBackward = False, turnLeft = False,
                   turnRight = False, strafeLeft = False, strafeRight = False\<rparr>,
       enemies := spawnedEnemies, decorations := spawnedDecorations, gameState := playing\<rparr>"

definition selectWeapon :: "weaponKey \<Rightarrow> game \<Rightarrow> game" where
  "selectWeapon k s =
     (if gameState s = menu then s
      else if gameOver s then s
      else s\<lparr>selectedWeapon := k\<rparr>)"

text \<open>A session with one enemy straight ahead of the spawn pose and one to the side.\<close>

definition enemyAhead :: enemy where
  "enemyAhead = newEnemy 8.5 2.5"

definition enemyAside :: enemy where
  "enemyAside = newEnemy 2.5 8.5"

text \<open>The enemy ahead as the first rifle shot leaves it.\<close>

definition struck :: enemy where
  "struck = fst (hit 60 enemyAhead 0)"

definition duel :: game where
  "duel = startGame [] [enemyAhead, enemyAside] loadState"

text \<open>
  The rifle emptied by clicks on the start menu (the click handler does not look at
  \<^verbatim>\<open>gameState\<close>), and Enter pressed before the reload timer fired: \<^verbatim>\<open>startGame\<close> clears
  \<^verbatim>\<open>reloading\<close> and the timer and leaves the magazine empty.
\<close>

definition emptyRifle :: game where
  "emptyRifle =
     startGame [] [enemyAhead, enemyAside]
       (loadState\<lparr>weapons := initialWeapons(shotgun := (initialWeapons shotgun)\<lparr>magazine := 0\<rparr>),
                  reloading := True, reloadTimer := Some shotgun\<rparr>)"

text \<open>
  A rifle with two rounds in the magazine and three in reserve: the weapon table of a
  session whose reserve is finite.
\<close>

definition scarce :: game where
  "scarce =
     duel\<lparr>weapons := initialWeapons(shotgun :=
              (initialWeapons shotgun)\<lparr>magazine := 2, totalAmmo := Rounds 3\<rparr>)\<rparr>"

section \<open>The wall caster\<close>

text \<open>
  \<^verbatim>\<open>castRays\<close>, one ray per column \<open>i\<close>. The grid march is the \<^verbatim>\<open>while (!hit)\<close> loop; its
  variables are the fields of \<open>march\<close> (\<^verbatim>\<open>hit\<close> is \<open>hitFlag\<close>). \<^verbatim>\<open>stepX\<close> and \<^verbatim>\<open>stepY\<close> are
  functions of the ray direction, as are \<^verbatim>\<open>deltaDistX\<close> and \<^verbatim>\<open>deltaDistY\<close>.
\<close>

definition rayAngle :: "player \<Rightarrow> nat \<Rightarrow> real" where
  "rayAngle p i = angle p - FOV / 2 + (FOV * real i) / real numRays"

definition deltaDist :: "real \<Rightarrow> real" where
  "deltaDist rayDir = (if rayDir = 0 then 10 ^ 30 else \<bar>1 / rayDir\<bar>)"

definition stepDir :: "real \<Rightarrow> int" where
  "stepDir rayDir = (if rayDir < 0 then - 1 else 1)"

definition sideDistInit :: "real \<Rightarrow> real \<Rightarrow> real" where
  "sideDistInit pos rayDir =
     (if rayDir < 0 then (pos - real_of_int \<lfloor>pos\<rfloor>) * deltaDist rayDir
      else (real_of_int \<lfloor>pos\<rfloor> + 1.0 - pos) * deltaDist rayDir)"

record march =
  mapX :: int
  mapY :: int
  sideDistX :: real
  sideDistY :: real
  side :: nat
  hitFlag :: bool

definition startMarch :: "player \<Rightarrow> real \<Rightarrow> real \<Rightarrow> march" where
  "startMarch p rayDirX rayDirY =
     \<lparr>mapX = \<lfloor>plx p\<rfloor>, mapY = \<lfloor>ply p\<rfloor>,
      sideDistX = sideDistInit (plx p) rayDirX, sideDistY = sideDistInit (ply p) rayDirY,
      side = 0, hitFlag = False\<rparr>"

text \<open>"Walk to next grid cell".\<close>

definition walk :: "real \<Rightarrow> real \<Rightarrow> march \<Rightarrow> march" where
  "walk rayDirX rayDirY m =
     (if sideDistX m < sideDistY m
      then m\<lparr>sideDistX := sideDistX m + deltaDist rayDirX,
             mapX := mapX m + stepDir rayDirX, side := 0\<rparr>
      else m\<lparr>sideDistY := sideDistY m + deltaDist rayDirY,
             mapY := mapY m + stepDir rayDirY, side := 1\<rparr>)"

definition outside :: "march \<Rightarrow> bool" where
  "outside m = (mapY m < 0 \<or> mapHeight \<le> mapY m \<or> mapX m < 0 \<or> mapWidth \<le> mapX m)"

definition wallAt :: "march \<Rightarrow> bool" where
  "wallAt m = (0 < map_grid ! nat (mapY m) ! nat (mapX m))"

text \<open>The cells still ahead of the march in its two fixed directions.\<close>

definition ahead :: "real \<Rightarrow> real \<Rightarrow> march \<Rightarrow> nat" where
  "ahead rayDirX rayDirY m =
     (if rayDirX < 0 then nat (mapX m + 1) else nat (mapWidth - mapX m))
   + (if rayDirY < 0 then nat (mapY m + 1) else nat (mapHeight - mapY m))"

function dda :: "real \<Rightarrow> real \<Rightarrow> march \<Rightarrow> march" where
  "dda rayDirX rayDirY m =
     (if outside (walk rayDirX rayDirY m) then (walk rayDirX rayDirY m)\<lparr>hitFlag := True\<rparr>
      else if wallAt (walk rayDirX rayDirY m) then (walk rayDirX rayDirY m)\<lparr>hitFlag := True\<rparr>
      else dda rayDirX rayDirY (walk rayDirX rayDirY m))"
  by pat_completeness auto
termination
proof (relation "measure (\<lambda>(rayDirX, rayDirY, m). ahead rayDirX rayDirY m)")
  show "wf (measure (\<lambda>(rayDirX, rayDirY, m). ahead rayDirX rayDirY m))" by simp
next
  fix rayDirX rayDirY :: real and m :: march
  assume "\<not> outside (walk rayDirX rayDirY m)"
  then have "ahead rayDirX rayDirY (walk rayDirX rayDirY m) < ahead rayDirX rayDirY m"
    by (auto simp: outside_def walk_def ahead_def stepDir_def)
  then show "((rayDirX, rayDirY, walk rayDirX rayDirY m), (rayDirX, rayDirY, m))
      \<in> measure (\<lambda>(rayDirX, rayDirY, m). ahead rayDirX rayDirY m)"
    by simp
qed

declare dda.simps [simp del]

definition perpWallDist :: "real \<Rightarrow> real \<Rightarrow> march \<Rightarrow> real" where
  "perpWallDist rayDirX rayDirY m =
     (if hitFlag m
      then (if side m = 0 then sideDistX m - deltaDist rayDirX
            else sideDistY m - deltaDist rayDirY)
      else maxRenderDist)"

definition castRay :: "player \<Rightarrow> nat \<Rightarrow> real" where
  "castRay p i =
     (let rayDirX = cos (rayAngle p i); rayDirY = sin (rayAngle p i)
      in perpWallDist rayDirX rayDirY (dda rayDirX rayDirY (startMarch p rayDirX rayDirY)))"

subsection \<open>Wall slices and the whole of castRays\<close>

text \<open>
  After \<^verbatim>\<open>zBuffer[i] = perpWallDist\<close> the loop body carries a pasted patch. Lines 677 to 679
  ("BEFORE") declare \<^verbatim>\<open>const wallHeight\<close>, \<^verbatim>\<open>const startY\<close>, \<^verbatim>\<open>const endY\<close>; line 682 declares
  \<^verbatim>\<open>const horizon\<close>; lines 685 to 687 ("AFTER") declare \<^verbatim>\<open>wallHeight\<close>, \<^verbatim>\<open>startY\<close> and \<^verbatim>\<open>endY\<close>
  again, in the same block. Two groups of draw calls follow: the patch (690 to 705),
  which draws from \<^verbatim>\<open>startY\<close> with height \<^verbatim>\<open>endY - startY\<close>, and the older slice code (717 to
  748), which draws from \<^verbatim>\<open>startY\<close> with height \<^verbatim>\<open>wallHeight\<close>. In each group the three
  branches (texture, pattern, flat colour) draw the same rectangle.

  JavaScript refuses a block that declares one name twice with \<^verbatim>\<open>const\<close>: the error is a
  SyntaxError raised before anything runs. \<open>AsShipped\<close> is the source. \<open>BeforeOnly\<close> and
  \<open>AfterOnly\<close> are the source with lines 685 to 687, respectively 677 to 679, deleted:
  the two programs nearest to it that run at all; they are not the source.

  The texture branch of the patch passes \<^verbatim>\<open>texX\<close> to \<^verbatim>\<open>drawImage\<close>. The only declaration of
  \<^verbatim>\<open>texX\<close> is at line 728, inside the block of the second group, so the name is not in
  scope: once \<^verbatim>\<open>bambooImg.complete\<close> holds (\<open>tex\<close>), evaluating the arguments throws a
  ReferenceError, before anything is drawn in that column.
\<close>

datatype declarations = AsShipped | BeforeOnly | AfterOnly

definition declaredNames :: "declarations \<Rightarrow> string list" where
  "declaredNames ds =
     [''rayAngle'', ''rayDirX'', ''rayDirY'', ''mapX'', ''mapY'', ''deltaDistX'', ''deltaDistY'',
      ''stepX'', ''stepY'', ''sideDistX'', ''sideDistY'', ''hit'', ''side'', ''perpWallDist'']
     @ (if ds = AfterOnly then [] else [''wallHeight'', ''startY'', ''endY''])
     @ [''horizon'']
     @ (if ds = BeforeOnly then [] else [''wallHeight'', ''startY'', ''endY''])"

record rect =
  left :: real
  topY :: real
  across :: real
  down :: real

definition bottom :: "rect \<Rightarrow> real" where
  "bottom r = topY r + down r"

definition horizon :: "canvas \<Rightarrow> real" where
  "horizon cv = real_of_int \<lfloor>screenHeight cv / 2\<rfloor>"

text \<open>Both declarations of \<^verbatim>\<open>wallHeight\<close> have the same right-hand side.\<close>

definition wallHeight :: "canvas \<Rightarrow> real \<Rightarrow> real" where
  "wallHeight cv perp = projectionPlane cv / (if perp = 0 then 0.0001 else perp)"

definition startYBefore :: "canvas \<Rightarrow> real \<Rightarrow> real" where
  "startYBefore cv perp = real_of_int \<lfloor>screenHeight cv / 2 - wallHeight cv perp / 2\<rfloor>"

definition endYBefore :: "canvas \<Rightarrow> real \<Rightarrow> real" where
  "endYBefore cv perp = startYBefore cv perp + wallHeight cv perp"

definition startYAfter :: "canvas \<Rightarrow> real \<Rightarrow> real" where
  "startYAfter cv perp = max 0 (horizon cv - wallHeight cv perp)"

definition endYAfter :: "canvas \<Rightarrow> real \<Rightarrow> real" where
  "endYAfter cv perp = horizon cv"

text \<open>The rectangle of the patch group and the rectangle of the older group.\<close>

definition patchSlice :: "canvas \<Rightarrow> nat \<Rightarrow> real \<Rightarrow> real \<Rightarrow> rect" where
  "patchSlice cv i startY endY =
     \<lparr>left = real i * stripWidth cv, topY = startY, across = stripWidth cv,
      down = endY - startY\<rparr>"

definition wallSlice :: "canvas \<Rightarrow> nat \<Rightarrow> real \<Rightarrow> real \<Rightarrow> rect" where
  "wallSlice cv i startY perp =
     \<lparr>left = real i * stripWidth cv, topY = startY, across = stripWidth cv,
      down = wallHeight cv perp\<rparr>"

text \<open>
  The slice part of the loop body for column \<open>i\<close>, given the depth just stored: an error,
  or the rectangles drawn, in drawing order. As shipped the body never runs.
\<close>

definition drawColumn :: "declarations \<Rightarrow> bool \<Rightarrow> canvas \<Rightarrow> nat \<Rightarrow> real \<Rightarrow> error + rect list" where
  "drawColumn ds tex cv i perp =
     (case ds of
        AsShipped \<Rightarrow> Inl SyntaxError
      | BeforeOnly \<Rightarrow>
          if tex then Inl ReferenceError
          else Inr [patchSlice cv i (startYBefore cv perp) (endYBefore cv perp),
                    wallSlice cv i (startYBefore cv perp) perp]
      | AfterOnly \<Rightarrow>
          if tex then Inl ReferenceError
          else Inr [patchSlice cv i (startYAfter cv perp) (endYAfter cv perp),
                    wallSlice cv i (startYAfter cv perp) perp])"

text \<open>
  The column loop with its two arrays, the \<^verbatim>\<open>zBuffer\<close> and the rectangles drawn so far; an
  error in a column ends the call. \<open>castRays\<close> is the function: refused as a whole when
  its body declares a name twice, otherwise the loop over the \<open>numRays\<close> columns.
\<close>

fun columnLoop ::
  "declarations \<Rightarrow> bool \<Rightarrow> canvas \<Rightarrow> player \<Rightarrow> nat list \<Rightarrow> real list \<Rightarrow> rect list
     \<Rightarrow> error + real list \<times> rect list" where
  "columnLoop ds tex cv p [] zBuffer drawn = Inr (zBuffer, drawn)"
| "columnLoop ds tex cv p (i # rest) zBuffer drawn =
     (case drawColumn ds tex cv i (castRay p i) of
        Inl e \<Rightarrow> Inl e
      | Inr slices \<Rightarrow> columnLoop ds tex cv p rest (zBuffer @ [castRay p i]) (drawn @ slices))"

definition castRays ::
  "declarations \<Rightarrow> bool \<Rightarrow> canvas \<Rightarrow> player \<Rightarrow> error + real list \<times> rect list" where
  "castRays ds tex cv p =
     (if \<not> distinct (declaredNames ds) then Inl SyntaxError
      else columnLoop ds tex cv p [0..<numRays] [] [])"

text \<open>The spawn pose turned by half the field of view, so that ray 0 points along +x.\<close>

definition turned :: player where
  "turned = initialPlayer\<lparr>angle := FOV / 2\<rparr>"

text \<open>
  A canvas of 960 by 560 pixels (a 480 pixel view above the HUD), and a player half a
  cell from the west border wall, facing it.
\<close>

definition exampleCanvas :: canvas where
  "exampleCanvas = \<lparr>width = 960, height = 560\<rparr>"

definition nearWall :: player where
  "nearWall = initialPlayer\<lparr>plx := 1.5, ply := 1.5, angle := pi\<rparr>"

text \<open>A canvas whose view has an odd height (481 pixels).\<close>

definition oddCanvas :: canvas where
  "oddCanvas = \<lparr>width = 960, height = 561\<rparr>"

text \<open>A march position that is in the map and not on its border.\<close>

definition interior :: "march \<Rightarrow> bool" where
  "interior m = (1 \<le> mapX m \<and> mapX m \<le> 14 \<and> 1 \<le> mapY m \<and> mapY m \<le> 14)"

section \<open>Player movement\<close>

text \<open>
  \<^verbatim>\<open>updatePlayer(dt)\<close>. \<open>turn\<close> is its first part (turning and normalising the angle),
  \<open>moveX\<close> and \<open>moveY\<close> the accumulated displacement. The two collision tests index the
  map with arbitrary integers, so the second one throws when \<^verbatim>\<open>Math.floor(newY)\<close> is not a
  row of the map; the player object is mutated in place, and the result carries it as it
  is when the call returns (\<open>Inr\<close>) or throws (\<open>Inl\<close>).
\<close>

definition moveSpeed :: real where
  "moveSpeed = 3"

definition rotSpeed :: real where
  "rotSpeed = 2"

definition turn :: "real \<Rightarrow> player \<Rightarrow> player" where
  "turn dt p =
     (let a1 = (if turnLeft p then angle p - rotSpeed * dt else angle p);
          a2 = (if turnRight p then a1 + rotSpeed * dt else a1)
      in p\<lparr>angle := normalizeAngle a2\<rparr>)"

definition moveX :: "real \<Rightarrow> player \<Rightarrow> real" where
  "moveX dt p =
     (if moveForward p then cos (angle p) * moveSpeed * dt else 0)
   - (if moveBackward p then cos (angle p) * moveSpeed * dt else 0)
   + (if strafeLeft p then - sin (angle p) * moveSpeed * dt else 0)
   + (if strafeRight p then sin (angle p) * moveSpeed * dt else 0)"

definition moveY :: "real \<Rightarrow> player \<Rightarrow> real" where
  "moveY dt p =
     (if moveForward p then sin (angle p) * moveSpeed * dt else 0)
   - (if moveBackward p then sin (angle p) * moveSpeed * dt else 0)
   + (if strafeLeft p then cos (angle p) * moveSpeed * dt else 0)
   + (if strafeRight p then - cos (angle p) * moveSpeed * dt else 0)"

definition newX :: "real \<Rightarrow> player \<Rightarrow> real" where
  "newX dt p = plx (turn dt p) + moveX dt (turn dt p)"

definition newY :: "real \<Rightarrow> player \<Rightarrow> real" where
  "newY dt p = ply (turn dt p) + moveY dt (turn dt p)"

definition updatePlayer :: "real \<Rightarrow> player \<Rightarrow> (error \<times> player) + player" where
  "updatePlayer dt p0 =
     (let p = turn dt p0
      in case mapAt \<lfloor>ply p\<rfloor> \<lfloor>newX dt p0\<rfloor> of
           Inl e \<Rightarrow> Inl (e, p)
         | Inr c \<Rightarrow>
             (let p1 = (if c = Some 0 then p\<lparr>plx := newX dt p0\<rparr> else p)
              in case mapAt \<lfloor>newY dt p0\<rfloor> \<lfloor>plx p1\<rfloor> of
                   Inl e \<Rightarrow> Inl (e, p1)
                 | Inr c' \<Rightarrow> Inr (if c' = Some 0 then p1\<lparr>ply := newY dt p0\<rparr> else p1)))"

text \<open>The player after the call, however it ended, and the test "the cell is empty".\<close>

fun afterCall :: "(error \<times> player) + player \<Rightarrow> player" where
  "afterCall (Inl (e, p)) = p"
| "afterCall (Inr p) = p"

definition emptyAt :: "real \<Rightarrow> real \<Rightarrow> bool" where
  "emptyAt px py = (mapAt \<lfloor>py\<rfloor> \<lfloor>px\<rfloor> = Inr (Some 0))"

text \<open>
  A player just west of the wall block at x = 5 in row 2, walking forward (east) and
  strafing (south) at once.
\<close>

definition cornered :: player where
  "cornered = initialPlayer\<lparr>plx := 4.9, ply := 2.5, moveForward := True, strafeLeft := True\<rparr>"

section \<open>The floor caster\<close>

text \<open>
  \<^verbatim>\<open>drawFloorPerspective(zBuffer)\<close>. For a view of odd height the first row below the
  horizon has vertical offset 0 and \<^verbatim>\<open>rowDistance\<close> is a division by zero, which in
  JavaScript is \<^verbatim>\<open>Infinity\<close> (or \<^verbatim>\<open>NaN\<close>) and flows on through the row: the numbers of
  this function are therefore of type \<open>number\<close>, with the arithmetic and the comparison
  of IEEE infinities and NaN written out. The zero of the offset is a positive zero.
\<close>

datatype number = Finite real | PosInf | NegInf | NaN

fun numDivide :: "real \<Rightarrow> real \<Rightarrow> number" where
  "numDivide a b =
     (if b \<noteq> 0 then Finite (a / b)
      else if 0 < a then PosInf else if a < 0 then NegInf else NaN)"

fun numScale :: "number \<Rightarrow> real \<Rightarrow> number" where
  "numScale (Finite a) r = Finite (a * r)"
| "numScale PosInf r = (if 0 < r then PosInf else if r < 0 then NegInf else NaN)"
| "numScale NegInf r = (if 0 < r then NegInf else if r < 0 then PosInf else NaN)"
| "numScale NaN r = NaN"

fun numOver :: "number \<Rightarrow> real \<Rightarrow> number" where
  "numOver (Finite a) r = numDivide a r"
| "numOver PosInf r = (if 0 \<le> r then PosInf else NegInf)"
| "numOver NegInf r = (if 0 \<le> r then NegInf else PosInf)"
| "numOver NaN r = NaN"

fun numPlus :: "number \<Rightarrow> number \<Rightarrow> number" where
  "numPlus (Finite a) (Finite b) = Finite (a + b)"
| "numPlus NaN y = NaN"
| "numPlus x NaN = NaN"
| "numPlus PosInf NegInf = NaN"
| "numPlus NegInf PosInf = NaN"
| "numPlus PosInf y = PosInf"
| "numPlus NegInf y = NegInf"
| "numPlus (Finite a) y = y"

fun numTimes :: "number \<Rightarrow> number \<Rightarrow> number" where
  "numTimes (Finite a) y = numScale y a"
| "numTimes x (Finite b) = numScale x b"
| "numTimes NaN y = NaN"
| "numTimes x NaN = NaN"
| "numTimes PosInf PosInf = PosInf"
| "numTimes NegInf NegInf = PosInf"
| "numTimes PosInf NegInf = NegInf"
| "numTimes NegInf PosInf = NegInf"

fun numGreater :: "number \<Rightarrow> real \<Rightarrow> bool" where
  "numGreater (Finite a) r = (r < a)"
| "numGreater PosInf r = True"
| "numGreater NegInf r = False"
| "numGreater NaN r = False"

text \<open>
  \<open>floorX\<close> and \<open>floorY\<close> are the running world coordinates \<^verbatim>\<open>wx\<close>, \<^verbatim>\<open>wy\<close> of pixel \<open>x\<close> in
  row \<open>yRow\<close> (the loop adds the step once per pixel). \<open>visible\<close> is the occlusion test.
  The result says, for each pixel of the floor image, whether the loop writes it or
  skips it with \<^verbatim>\<open>continue\<close>; the colour that is written is not part of the model.
  \<open>column\<close> is evaluated inside the pixel loop only, for \<open>x\<close> below the width, where
  \<^verbatim>\<open>stripWidth\<close> is positive.
\<close>

definition floorHeight :: "canvas \<Rightarrow> real" where
  "floorHeight cv = screenHeight cv - horizon cv"

definition rowDistance :: "canvas \<Rightarrow> nat \<Rightarrow> number" where
  "rowDistance cv yRow =
     numDivide (screenHeight cv / 2) (horizon cv + real yRow + 0.5 - screenHeight cv / 2)"

definition leftDirX :: "player \<Rightarrow> real" where
  "leftDirX p = cos (angle p - FOV / 2)"

definition leftDirY :: "player \<Rightarrow> real" where
  "leftDirY p = sin (angle p - FOV / 2)"

definition rightDirX :: "player \<Rightarrow> real" where
  "rightDirX p = cos (angle p + FOV / 2)"

definition rightDirY :: "player \<Rightarrow> real" where
  "rightDirY p = sin (angle p + FOV / 2)"

fun floorX :: "canvas \<Rightarrow> player \<Rightarrow> nat \<Rightarrow> nat \<Rightarrow> number" where
  "floorX cv p yRow 0 = numPlus (Finite (plx p)) (numScale (rowDistance cv yRow) (leftDirX p))"
| "floorX cv p yRow (Suc x) =
     numPlus (floorX cv p yRow x)
       (numOver (numScale (rowDistance cv yRow) (rightDirX p - leftDirX p)) (real_of_int (width cv)))"

fun floorY :: "canvas \<Rightarrow> player \<Rightarrow> nat \<Rightarrow> nat \<Rightarrow> number" where
  "floorY cv p yRow 0 = numPlus (Finite (ply p)) (numScale (rowDistance cv yRow) (leftDirY p))"
| "floorY cv p yRow (Suc x) =
     numPlus (floorY cv p yRow x)
       (numOver (numScale (rowDistance cv yRow) (rightDirY p - leftDirY p)) (real_of_int (width cv)))"

definition distSq :: "canvas \<Rightarrow> player \<Rightarrow> nat \<Rightarrow> nat \<Rightarrow> number" where
  "distSq cv p yRow x =
     (let dx = numPlus (floorX cv p yRow x) (Finite (- plx p));
          dy = numPlus (floorY cv p yRow x) (Finite (- ply p))
      in numPlus (numTimes dx dx) (numTimes dy dy))"

definition column :: "canvas \<Rightarrow> nat \<Rightarrow> int" where
  "column cv x = \<lfloor>real x / stripWidth cv\<rfloor>"

definition visible :: "canvas \<Rightarrow> player \<Rightarrow> real list \<Rightarrow> nat \<Rightarrow> nat \<Rightarrow> bool" where
  "visible cv p zBuffer yRow x =
     (let zBufSq = map (\<lambda>d. d * d) zBuffer; col = column cv x
      in if 0 \<le> col \<and> col < int (length zBufSq)
         then (if numGreater (distSq cv p yRow x) (zBufSq ! nat col) then False else True)
         else True)"

definition drawFloorPerspective :: "canvas \<Rightarrow> player \<Rightarrow> real list \<Rightarrow> nat \<Rightarrow> nat \<Rightarrow> bool" where
  "drawFloorPerspective cv p zBuffer yRow x =
     (real yRow < floorHeight cv \<and> int x < width cv \<and> visible cv p zBuffer yRow x)"

text \<open>
  The render part of a frame of \<^verbatim>\<open>gameLoop\<close> (playing or menu), in its order: the floor
  pass is called with an empty array; then \<^verbatim>\<open>castRays\<close> is called, and an exception it
  throws leaves the floor as drawn. A script that does not parse renders no frame.
\<close>

record frame =
  floorDrawn :: "nat \<Rightarrow> nat \<Rightarrow> bool"
  wallPass :: "error + real list \<times> rect list"

definition renderFrame :: "declarations \<Rightarrow> bool \<Rightarrow> canvas \<Rightarrow> player \<Rightarrow> error + frame" where
  "renderFrame ds tex cv p =
     (if \<not> distinct (declaredNames ds) then Inl SyntaxError
      else (let floorPass = drawFloorPerspective cv p [];
                walls = castRays ds tex cv p
            in Inr \<lparr>floorDrawn = floorPass, wallPass = walls\<rparr>))"

section \<open>Verification\<close>

subsection \<open>Shooting and reloading\<close>

lemma scanEnemies_spec:
  "(scanEnemies p es i target minDist = target \<and>
      (\<forall>j<length es. eligible p (es ! j) \<longrightarrow> \<not> closer (enemyDist p (es ! j)) minDist))
   \<or> (\<exists>j<length es. scanEnemies p es i target minDist = Some (i + j) \<and> eligible p (es ! j) \<and>
         closer (enemyDist p (es ! j)) minDist \<and>
         (\<forall>j'<length es. eligible p (es ! j') \<longrightarrow> enemyDist p (es ! j) \<le> enemyDist p (es ! j')))"
proof (induction es arbitrary: i target minDist)
  case Nil
  then show ?case by simp
next
  case (Cons e es)
  show ?case
  proof (cases "eligible p e \<and> closer (enemyDist p e) minDist")
    case False
    then have eq: "scanEnemies p (e # es) i target minDist = scanEnemies p es (Suc i) target minDist"
      by (auto simp: eligible_def)
    from Cons.IH [of "Suc i" target minDist] show ?thesis
    proof
      assume A: "scanEnemies p es (Suc i) target minDist = target \<and>
        (\<forall>j<length es. eligible p (es ! j) \<longrightarrow> \<not> closer (enemyDist p (es ! j)) minDist)"
      have "\<forall>j<length (e # es). eligible p ((e # es) ! j) \<longrightarrow> \<not> closer (enemyDist p ((e # es) ! j)) minDist"
        using A False by (auto simp: nth_Cons split: nat.splits)
      with A eq show ?thesis by simp
    next
      assume "\<exists>j<length es. scanEnemies p es (Suc i) target minDist = Some (Suc i + j) \<and> eligible p (es ! j) \<and>
         closer (enemyDist p (es ! j)) minDist \<and>
         (\<forall>j'<length es. eligible p (es ! j') \<longrightarrow> enemyDist p (es ! j) \<le> enemyDist p (es ! j'))"
      then obtain j where j: "j < length es" "scanEnemies p es (Suc i) target minDist = Some (Suc i + j)"
        "eligible p (es ! j)" "closer (enemyDist p (es ! j)) minDist"
        "\<forall>j'<length es. eligible p (es ! j') \<longrightarrow> enemyDist p (es ! j) \<le> enemyDist p (es ! j')"
        by blast
      have head: "eligible p e \<longrightarrow> enemyDist p (es ! j) \<le> enemyDist p e"
        using False j(4) by (cases minDist) auto
      have all: "\<forall>j'<length (e # es). eligible p ((e # es) ! j') \<longrightarrow> enemyDist p ((e # es) ! Suc j) \<le> enemyDist p ((e # es) ! j')"
        using head j(5) by (auto simp: nth_Cons split: nat.splits)
      have "Suc j < length (e # es) \<and> scanEnemies p (e # es) i target minDist = Some (i + Suc j)
          \<and> eligible p ((e # es) ! Suc j) \<and> closer (enemyDist p ((e # es) ! Suc j)) minDist"
        using j eq by simp
      with all show ?thesis by blast
    qed
  next
    case True
    then have eq: "scanEnemies p (e # es) i target minDist
        = scanEnemies p es (Suc i) (Some i) (Some (enemyDist p e))"
      by (auto simp: eligible_def)
    from Cons.IH [of "Suc i" "Some i" "Some (enemyDist p e)"] show ?thesis
    proof
      assume A: "scanEnemies p es (Suc i) (Some i) (Some (enemyDist p e)) = Some i \<and>
        (\<forall>j<length es. eligible p (es ! j) \<longrightarrow> \<not> closer (enemyDist p (es ! j)) (Some (enemyDist p e)))"
      have all: "\<forall>j'<length (e # es). eligible p ((e # es) ! j') \<longrightarrow> enemyDist p ((e # es) ! 0) \<le> enemyDist p ((e # es) ! j')"
        using A by (auto simp: nth_Cons split: nat.splits)
      have "0 < length (e # es) \<and> scanEnemies p (e # es) i target minDist = Some (i + 0)
          \<and> eligible p ((e # es) ! 0) \<and> closer (enemyDist p ((e # es) ! 0)) minDist"
        using A eq True by simp
      with all show ?thesis by blast
    next
      assume "\<exists>j<length es. scanEnemies p es (Suc i) (Some i) (Some (enemyDist p e)) = Some (Suc i + j) \<and> eligible p (es ! j) \<and>
         closer (enemyDist p (es ! j)) (Some (enemyDist p e)) \<and>
         (\<forall>j'<length es. eligible p (es ! j') \<longrightarrow> enemyDist p (es ! j) \<le> enemyDist p (es ! j'))"
      then obtain j where j: "j < length es"
        "scanEnemies p es (Suc i) (Some i) (Some (enemyDist p e)) = Some (Suc i + j)"
        "eligible p (es ! j)" "closer (enemyDist p (es ! j)) (Some (enemyDist p e))"
        "\<forall>j'<length es. eligible p (es ! j') \<longrightarrow> enemyDist p (es ! j) \<le> enemyDist p (es ! j')"
        by blast
      have cl: "closer (enemyDist p (es ! j)) minDist"
        using True j(4) by (cases minDist) auto
      have all: "\<forall>j'<length (e # es). eligible p ((e # es) ! j') \<longrightarrow> enemyDist p ((e # es) ! Suc j) \<le> enemyDist p ((e # es) ! j')"
        using j(4) j(5) by (auto simp: nth_Cons split: nat.splits)
      have "Suc j < length (e # es) \<and> scanEnemies p (e # es) i target minDist = Some (i + Suc j)
          \<and> eligible p ((e # es) ! Suc j) \<and> closer (enemyDist p ((e # es) ! Suc j)) minDist"
        using j eq cl by simp
      with all show ?thesis by blast
    qed
  qed
qed


lemma findTarget_cases:
  "(findTarget p es = None \<and> (\<forall>j<length es. \<not> eligible p (es ! j)))
   \<or> (\<exists>t<length es. findTarget p es = Some t \<and> eligible p (es ! t) \<and>
         (\<forall>j<length es. eligible p (es ! j) \<longrightarrow> enemyDist p (es ! t) \<le> enemyDist p (es ! j)))"
  using scanEnemies_spec [of p es 0 None None]
  by (auto simp: findTarget_def)

lemma reloadWeapon_keeps:
  "weapons (reloadWeapon s) = weapons s \<and> enemies (reloadWeapon s) = enemies s \<and>
   kills (reloadWeapon s) = kills s \<and> player (reloadWeapon s) = player s \<and>
   decorations (reloadWeapon s) = decorations s \<and>
   selectedWeapon (reloadWeapon s) = selectedWeapon s \<and> gameOver (reloadWeapon s) = gameOver s"
  by (simp add: reloadWeapon_def Let_def)

lemma shootWeapon_fired:
  assumes "\<not> gameOver s" "\<not> reloading s" "0 < magazine (weapons s (selectedWeapon s))"
  shows "shootWeapon s = fired s \<or> shootWeapon s = reloadWeapon (fired s)"
  using assms by (auto simp: shootWeapon_def fired_def Let_def split: option.splits)

lemma fired_fields:
  "weapons (fired s) = (weapons s)(selectedWeapon s :=
       (weapons s (selectedWeapon s))\<lparr>magazine := magazine (weapons s (selectedWeapon s)) - 1\<rparr>)"
  "player (fired s) = player s"
  "decorations (fired s) = decorations s"
  "selectedWeapon (fired s) = selectedWeapon s"
  "enemies (fired s) = (case findTarget (player s) (enemies s) of None \<Rightarrow> enemies s
      | Some t \<Rightarrow> (enemies s)[t := fst (hit (damage (weapons s (selectedWeapon s))) (enemies s ! t) (kills s))])"
  "kills (fired s) = (case findTarget (player s) (enemies s) of None \<Rightarrow> kills s
      | Some t \<Rightarrow> snd (hit (damage (weapons s (selectedWeapon s))) (enemies s ! t) (kills s)))"
  by (simp_all add: fired_def Let_def split: option.splits)

lemma shootWeapon_fields:
  assumes "\<not> gameOver s" "\<not> reloading s" "0 < magazine (weapons s (selectedWeapon s))"
  shows "weapons (shootWeapon s) = weapons (fired s)"
    and "player (shootWeapon s) = player s"
    and "decorations (shootWeapon s) = decorations s"
    and "selectedWeapon (shootWeapon s) = selectedWeapon s"
    and "enemies (shootWeapon s) = enemies (fired s)"
    and "kills (shootWeapon s) = kills (fired s)"
  using shootWeapon_fired [OF assms] reloadWeapon_keeps [of "fired s"]
  by (auto simp: fired_fields)

text \<open>
  Claim C10. A call of \<^verbatim>\<open>shootWeapon\<close> with the game running, no reload in progress and
  a positive magazine takes exactly one round from the selected weapon's magazine, whether
  or not an enemy is hit, and leaves the reserve, the other weapon, the player, the
  decorations and the selection as they were. The enemy array keeps its length; if no
  enemy passes the loop's test nothing in it changes and \<open>kills\<close> stays; every entry that
  does change is one that passed the test, is at least as near as every other such entry,
  and is the only entry that changed. The map is a constant of the program.
\<close>

theorem shootWeapon_frame:
  assumes "\<not> gameOver s" and "\<not> reloading s"
    and "0 < magazine (weapons s (selectedWeapon s))"
  shows "magazine (weapons (shootWeapon s) (selectedWeapon s))
           = magazine (weapons s (selectedWeapon s)) - 1
       \<and> totalAmmo (weapons (shootWeapon s) (selectedWeapon s))
           = totalAmmo (weapons s (selectedWeapon s))
       \<and> (\<forall>k. k \<noteq> selectedWeapon s \<longrightarrow> weapons (shootWeapon s) k = weapons s k)
       \<and> player (shootWeapon s) = player s
       \<and> decorations (shootWeapon s) = decorations s
       \<and> selectedWeapon (shootWeapon s) = selectedWeapon s
       \<and> length (enemies (shootWeapon s)) = length (enemies s)
       \<and> ((\<forall>j<length (enemies s). \<not> eligible (player s) (enemies s ! j))
            \<longrightarrow> enemies (shootWeapon s) = enemies s \<and> kills (shootWeapon s) = kills s)
       \<and> (\<forall>t<length (enemies s). enemies (shootWeapon s) ! t \<noteq> enemies s ! t \<longrightarrow>
            eligible (player s) (enemies s ! t)
            \<and> (\<forall>j<length (enemies s). eligible (player s) (enemies s ! j)
                  \<longrightarrow> enemyDist (player s) (enemies s ! t) \<le> enemyDist (player s) (enemies s ! j))
            \<and> (\<forall>j<length (enemies s). j \<noteq> t \<longrightarrow> enemies (shootWeapon s) ! j = enemies s ! j))"
proof -
  note f = shootWeapon_fields [OF assms]
  have w: "magazine (weapons (shootWeapon s) (selectedWeapon s))
           = magazine (weapons s (selectedWeapon s)) - 1
       \<and> totalAmmo (weapons (shootWeapon s) (selectedWeapon s))
           = totalAmmo (weapons s (selectedWeapon s))
       \<and> (\<forall>k. k \<noteq> selectedWeapon s \<longrightarrow> weapons (shootWeapon s) k = weapons s k)"
    by (simp add: f fired_fields)
  have e: "length (enemies (shootWeapon s)) = length (enemies s)
       \<and> ((\<forall>j<length (enemies s). \<not> eligible (player s) (enemies s ! j))
            \<longrightarrow> enemies (shootWeapon s) = enemies s \<and> kills (shootWeapon s) = kills s)
       \<and> (\<forall>t<length (enemies s). enemies (shootWeapon s) ! t \<noteq> enemies s ! t \<longrightarrow>
            eligible (player s) (enemies s ! t)
            \<and> (\<forall>j<length (enemies s). eligible (player s) (enemies s ! j)
                  \<longrightarrow> enemyDist (player s) (enemies s ! t) \<le> enemyDist (player s) (enemies s ! j))
            \<and> (\<forall>j<length (enemies s). j \<noteq> t \<longrightarrow> enemies (shootWeapon s) ! j = enemies s ! j))"
    using findTarget_cases [of "player s" "enemies s"]
  proof
    assume "findTarget (player s) (enemies s) = None \<and>
      (\<forall>j<length (enemies s). \<not> eligible (player s) (enemies s ! j))"
    then show ?thesis by (simp add: f fired_fields)
  next
    assume "\<exists>t<length (enemies s). findTarget (player s) (enemies s) = Some t \<and>
      eligible (player s) (enemies s ! t) \<and>
      (\<forall>j<length (enemies s). eligible (player s) (enemies s ! j) \<longrightarrow>
         enemyDist (player s) (enemies s ! t) \<le> enemyDist (player s) (enemies s ! j))"
    then obtain t where t: "t < length (enemies s)" "findTarget (player s) (enemies s) = Some t"
      "eligible (player s) (enemies s ! t)"
      "\<forall>j<length (enemies s). eligible (player s) (enemies s ! j) \<longrightarrow>
         enemyDist (player s) (enemies s ! t) \<le> enemyDist (player s) (enemies s ! j)"
      by blast
    have upd: "enemies (shootWeapon s)
        = (enemies s)[t := fst (hit (damage (weapons s (selectedWeapon s))) (enemies s ! t) (kills s))]"
      by (simp add: f fired_fields t(2))
    have others: "\<forall>j. j \<noteq> t \<longrightarrow> enemies (shootWeapon s) ! j = enemies s ! j"
      by (simp add: upd)
    have len: "length (enemies (shootWeapon s)) = length (enemies s)"
      by (simp add: upd)
    have vac: "(\<forall>j<length (enemies s). \<not> eligible (player s) (enemies s ! j))
            \<longrightarrow> enemies (shootWeapon s) = enemies s \<and> kills (shootWeapon s) = kills s"
      using t(1) t(3) by blast
    have at_t: "eligible (player s) (enemies s ! t)
            \<and> (\<forall>j<length (enemies s). eligible (player s) (enemies s ! j)
                  \<longrightarrow> enemyDist (player s) (enemies s ! t) \<le> enemyDist (player s) (enemies s ! j))
            \<and> (\<forall>j<length (enemies s). j \<noteq> t \<longrightarrow> enemies (shootWeapon s) ! j = enemies s ! j)"
      using t(3) t(4) others by simp
    have changed: "\<forall>t'<length (enemies s). enemies (shootWeapon s) ! t' \<noteq> enemies s ! t' \<longrightarrow>
            eligible (player s) (enemies s ! t')
            \<and> (\<forall>j<length (enemies s). eligible (player s) (enemies s ! j)
                  \<longrightarrow> enemyDist (player s) (enemies s ! t') \<le> enemyDist (player s) (enemies s ! j))
            \<and> (\<forall>j<length (enemies s). j \<noteq> t' \<longrightarrow> enemies (shootWeapon s) ! j = enemies s ! j)"
    proof (intro allI impI)
      fix t' assume "t' < length (enemies s)" "enemies (shootWeapon s) ! t' \<noteq> enemies s ! t'"
      then have eq: "t' = t" using others by blast
      show "eligible (player s) (enemies s ! t')
            \<and> (\<forall>j<length (enemies s). eligible (player s) (enemies s ! j)
                  \<longrightarrow> enemyDist (player s) (enemies s ! t') \<le> enemyDist (player s) (enemies s ! j))
            \<and> (\<forall>j<length (enemies s). j \<noteq> t' \<longrightarrow> enemies (shootWeapon s) ! j = enemies s ! j)"
        unfolding eq by (rule at_t)
    qed
    show ?thesis
      by (rule conjI [OF len conjI [OF vac changed]])
  qed
  show ?thesis
    by (rule conjI [OF conjunct1 [OF w] conjI [OF conjunct1 [OF conjunct2 [OF w]]
          conjI [OF conjunct2 [OF conjunct2 [OF w]] conjI [OF f(2) conjI [OF f(3) conjI [OF f(4) e]]]]]])
qed

lemma wrapUp_id: "- pi \<le> a \<Longrightarrow> wrapUp a = a"
  by (simp add: wrapUp.simps [of a])

lemma wrapDown_id: "a \<le> pi \<Longrightarrow> wrapDown a = a"
  by (simp add: wrapDown.simps [of a])

lemma normalizeAngle_id: "- pi \<le> a \<Longrightarrow> a \<le> pi \<Longrightarrow> normalizeAngle a = a"
  by (simp add: normalizeAngle_def wrapUp_id wrapDown_id)

lemma duel_fields:
  "player duel = initialPlayer" "weapons duel = initialWeapons" "selectedWeapon duel = shotgun"
  "enemies duel = [enemyAhead, enemyAside]" "kills duel = 0"
  "\<not> reloading duel" "\<not> gameOver duel" "decorations duel = []" "reloadTimer duel = None"
  by (simp_all add: duel_def startGame_def loadState_def initialPlayer_def)

lemma aim_ahead: "aimAngle initialPlayer enemyAhead = 0" "alive enemyAhead"
  "enemyDist initialPlayer enemyAhead = 6" "health enemyAhead = 60"
  by (simp_all add: aimAngle_def enemyDist_def enemyAhead_def initialPlayer_def newEnemy_def
      atan2_def normalizeAngle_id)

lemma aim_side: "aimAngle initialPlayer enemyAside = pi / 2" "alive enemyAside"
  by (simp_all add: aimAngle_def enemyAside_def initialPlayer_def newEnemy_def atan2_def
      normalizeAngle_id)

lemma threshold_bounds: "0 < threshold" "threshold < pi / 2"
  by (simp_all add: threshold_def FOV_def)

lemma findTarget_duel: "findTarget initialPlayer [enemyAhead, enemyAside] = Some 0"
  using threshold_bounds
  by (simp add: findTarget_def aim_ahead aim_side)

lemma weapons_init:
  "magazine (initialWeapons shotgun) = 8" "damage (initialWeapons shotgun) = 60"
  "ammoCapacity (initialWeapons shotgun) = 8" "totalAmmo (initialWeapons shotgun) = Infinity"
  by (simp_all add: initialWeapons_def)

theorem shootWeapon_frame_witness:
  "\<not> gameOver duel \<and> \<not> reloading duel \<and> 0 < magazine (weapons duel (selectedWeapon duel))
   \<and> magazine (weapons (shootWeapon duel) shotgun) = 7
   \<and> weapons (shootWeapon duel) laser = initialWeapons laser
   \<and> player (shootWeapon duel) = initialPlayer"
proof -
  have h1: "\<not> gameOver duel" and h2: "\<not> reloading duel"
    and h3: "0 < magazine (weapons duel (selectedWeapon duel))"
    by (simp_all add: duel_fields weapons_init)
  note th = shootWeapon_frame [OF h1 h2 h3]
  from th have m: "magazine (weapons (shootWeapon duel) (selectedWeapon duel))
      = magazine (weapons duel (selectedWeapon duel)) - 1"
    by (elim conjE)
  from th have l: "\<forall>k. k \<noteq> selectedWeapon duel \<longrightarrow> weapons (shootWeapon duel) k = weapons duel k"
    by (elim conjE)
  from th have p: "player (shootWeapon duel) = player duel"
    by (elim conjE)
  have m': "magazine (weapons (shootWeapon duel) shotgun) = 7"
    using m by (simp add: duel_fields weapons_init)
  have l': "weapons (shootWeapon duel) laser = initialWeapons laser"
    using l by (simp add: duel_fields)
  have p': "player (shootWeapon duel) = initialPlayer"
    using p by (simp add: duel_fields)
  from h1 h2 h3 m' l' p' show ?thesis by (intro conjI)
qed


lemma hit_first: "hit 60 enemyAhead 0 = (struck, 1)"
  by (simp add: struck_def hit_def aim_ahead Let_def)

lemma struck_fields:
  "alive struck" "dying struck" "health struck = 0" "deathTimer struck = 0.6"
  "aimAngle initialPlayer struck = 0" "enemyDist initialPlayer struck = 6"
  by (simp_all add: struck_def hit_def Let_def aimAngle_def enemyDist_def enemyAhead_def
      initialPlayer_def newEnemy_def atan2_def normalizeAngle_id)

lemma shot1:
  "shootWeapon duel = duel\<lparr>weapons := initialWeapons(shotgun := (initialWeapons shotgun)\<lparr>magazine := 7\<rparr>),
      enemies := [struck, enemyAside], kills := 1, muzzleTimer := 0.15, bulletTimer := 0.1\<rparr>"
  by (simp add: shootWeapon_def Let_def duel_fields weapons_init findTarget_duel hit_first)

lemma findTarget_struck: "findTarget initialPlayer [struck, enemyAside] = Some 0"
  using threshold_bounds
  by (simp add: findTarget_def struck_fields aim_side)

lemma hit_second: "snd (hit 60 struck 1) = 2" "alive (fst (hit 60 struck 1))"
  "health (fst (hit 60 struck 1)) = - 60"
  by (simp_all add: hit_def struck_fields Let_def)

lemma shot1_fields:
  "\<not> gameOver (shootWeapon duel)" "\<not> reloading (shootWeapon duel)"
  "selectedWeapon (shootWeapon duel) = shotgun"
  "player (shootWeapon duel) = initialPlayer"
  "kills (shootWeapon duel) = 1"
  "enemies (shootWeapon duel) = [struck, enemyAside]"
  "magazine (weapons (shootWeapon duel) shotgun) = 7"
  "damage (weapons (shootWeapon duel) shotgun) = 60"
  "ammoCapacity (weapons (shootWeapon duel) shotgun) = 8"
  "totalAmmo (weapons (shootWeapon duel) shotgun) = Infinity"
  "weapons (shootWeapon duel) laser = initialWeapons laser"
  by (simp_all add: shot1 duel_fields weapons_init)

lemma shot2_fields:
  "kills (shootWeapon (shootWeapon duel)) = 2"
  "enemies (shootWeapon (shootWeapon duel)) = [fst (hit 60 struck 1), enemyAside]"
proof -
  have pre: "\<not> gameOver (shootWeapon duel)" "\<not> reloading (shootWeapon duel)"
    "0 < magazine (weapons (shootWeapon duel) (selectedWeapon (shootWeapon duel)))"
    by (simp_all add: shot1_fields)
  note f = shootWeapon_fields [OF pre]
  have "kills (shootWeapon (shootWeapon duel)) = kills (fired (shootWeapon duel))"
    by (rule f(6))
  also have "\<dots> = snd (hit 60 struck 1)"
    by (simp add: fired_fields(6) shot1_fields findTarget_struck)
  also have "\<dots> = 2" by (rule hit_second)
  finally show "kills (shootWeapon (shootWeapon duel)) = 2" .
  have "enemies (shootWeapon (shootWeapon duel)) = enemies (fired (shootWeapon duel))"
    by (rule f(5))
  also have "\<dots> = [fst (hit 60 struck 1), enemyAside]"
    by (simp add: fired_fields(5) shot1_fields findTarget_struck)
  finally show "enemies (shootWeapon (shootWeapon duel)) = [fst (hit 60 struck 1), enemyAside]" .
qed

text \<open>
  Claim C1. The claim asks that \<open>kills\<close> never rises more than once for one enemy object.
  Evaluated on a session with two enemies, the rifle and the enemy straight ahead: the
  first shot brings its health to 0, marks it dying and counts one kill; \<^verbatim>\<open>alive\<close> stays
  set while the death animation runs (also after a frame of 0.1 s), so \<^verbatim>\<open>hit\<close> does not
  return early, and a second shot at the same object counts a second kill. The other
  enemy is never hit.
\<close>

theorem same_enemy_counted_twice:
  "length (enemies duel) = 2 \<and> kills duel = 0
   \<and> kills (shootWeapon duel) = 1
   \<and> alive (enemies (shootWeapon duel) ! 0) \<and> dying (enemies (shootWeapon duel) ! 0)
   \<and> alive (deathAnimation 0.1 (enemies (shootWeapon duel) ! 0))
   \<and> snd (hit 60 (deathAnimation 0.1 (enemies (shootWeapon duel) ! 0)) 1) = 2
   \<and> kills (shootWeapon (shootWeapon duel)) = 2
   \<and> enemies (shootWeapon (shootWeapon duel)) ! 1 = enemyAside
   \<and> health enemyAside = 60"
proof -
  have a1: "length (enemies duel) = 2" and a2: "kills duel = 0"
    by (simp_all add: duel_fields)
  have b1: "kills (shootWeapon duel) = 1" by (rule shot1_fields)
  have e0: "enemies (shootWeapon duel) ! 0 = struck"
    by (simp add: shot1_fields)
  have b2: "alive (enemies (shootWeapon duel) ! 0)" and b3: "dying (enemies (shootWeapon duel) ! 0)"
    by (simp_all add: e0 struck_fields)
  have da: "alive (deathAnimation 0.1 struck)" "health (deathAnimation 0.1 struck) = 0"
    by (simp_all add: deathAnimation_def Let_def struck_fields)
  have b4: "alive (deathAnimation 0.1 (enemies (shootWeapon duel) ! 0))"
    by (simp add: e0 da)
  have b5: "snd (hit 60 (deathAnimation 0.1 (enemies (shootWeapon duel) ! 0)) 1) = 2"
    by (simp add: e0 hit_def da Let_def)
  have c1: "kills (shootWeapon (shootWeapon duel)) = 2" by (rule shot2_fields)
  have c2: "enemies (shootWeapon (shootWeapon duel)) ! 1 = enemyAside"
    by (simp add: shot2_fields)
  have d: "health enemyAside = 60" by (simp add: enemyAside_def newEnemy_def)
  show ?thesis
    by (rule conjI [OF a1 conjI [OF a2 conjI [OF b1 conjI [OF b2 conjI [OF b3 conjI [OF b4
          conjI [OF b5 conjI [OF c1 conjI [OF c2 d]]]]]]]]])
qed

lemma winCheck_iff: "gameOver (winCheck s) \<longleftrightarrow> gameOver s \<or> TARGET_KILLS \<le> kills s"
  by (simp add: winCheck_def)

lemma ammoNotPositive_iff: "ammoNotPositive a = (\<not> ammoPositive a)"
  by (cases a) auto

text \<open>
  Claim C7. With the game running, no reload in progress, the selected magazine at 0,
  reserve left and a positive capacity, \<^verbatim>\<open>shootWeapon\<close> does what \<^verbatim>\<open>reloadWeapon\<close> does
  and nothing else: it starts the reload, no enemy and no counter changes, and the
  magazine stays at 0. The function has no failing branch.
\<close>

theorem shootWeapon_empty_magazine:
  assumes "\<not> gameOver s" and "\<not> reloading s"
    and "magazine (weapons s (selectedWeapon s)) = 0"
    and "ammoPositive (totalAmmo (weapons s (selectedWeapon s)))"
    and "0 < ammoCapacity (weapons s (selectedWeapon s))"
  shows "shootWeapon s = reloadWeapon s
       \<and> shootWeapon s = s\<lparr>reloading := True, reloadTimer := Some (selectedWeapon s)\<rparr>
       \<and> enemies (shootWeapon s) = enemies s
       \<and> kills (shootWeapon s) = kills s
       \<and> weapons (shootWeapon s) = weapons s
       \<and> magazine (weapons (shootWeapon s) (selectedWeapon s)) = 0
       \<and> reloading (shootWeapon s)"
  using assms
  by (simp add: shootWeapon_def reloadWeapon_def Let_def ammoNotPositive_iff)

lemma reloadCallback_weapon:
  "weapons (reloadCallback k s) k
     = (weapons s k)\<lparr>magazine := magazine (weapons s k)
            + minAmmo (ammoCapacity (weapons s k) - magazine (weapons s k)) (totalAmmo (weapons s k)),
          totalAmmo := subAmmo (totalAmmo (weapons s k))
            (minAmmo (ammoCapacity (weapons s k) - magazine (weapons s k)) (totalAmmo (weapons s k)))\<rparr>"
  "k' \<noteq> k \<Longrightarrow> weapons (reloadCallback k s) k' = weapons s k'"
  "reloading (reloadCallback k s) = False"
  "reloadTimer (reloadCallback k s) = reloadTimer s"
  by (simp_all add: reloadCallback_def Let_def)

text \<open>
  Claim C6. \<^verbatim>\<open>reloadWeapon\<close> returns the state unchanged while a reload is in progress,
  when the selected magazine is full, or when the reserve is not positive. Otherwise it
  starts a reload without touching the weapons; a second request before the timer fires
  changes nothing, also when a digit key has been pressed in between; when the timer
  fires the magazine holds min(capacity, magazine + reserve) (the capacity, for an
  unbounded reserve); a finite reserve of n rounds is left with n minus the rounds the
  magazine gained, an unbounded one stays unbounded; the other weapon is untouched, and
  nothing is left to fire a second time.
\<close>

theorem reloadWeapon_once:
  "(reloading s \<or> ammoCapacity (weapons s (selectedWeapon s)) \<le> magazine (weapons s (selectedWeapon s))
       \<or> ammoNotPositive (totalAmmo (weapons s (selectedWeapon s)))
     \<longrightarrow> reloadWeapon s = s)
   \<and> (\<not> reloading s \<and> magazine (weapons s (selectedWeapon s)) < ammoCapacity (weapons s (selectedWeapon s))
       \<and> ammoPositive (totalAmmo (weapons s (selectedWeapon s)))
     \<longrightarrow> reloading (reloadWeapon s)
       \<and> reloadTimer (reloadWeapon s) = Some (selectedWeapon s)
       \<and> weapons (reloadWeapon s) = weapons s
       \<and> reloadWeapon (reloadWeapon s) = reloadWeapon s
       \<and> reloadWeapon (selectWeapon k' (reloadWeapon s)) = selectWeapon k' (reloadWeapon s)
       \<and> magazine (weapons (timerFires (reloadWeapon (reloadWeapon s))) (selectedWeapon s))
           = (case totalAmmo (weapons s (selectedWeapon s)) of
                Infinity \<Rightarrow> ammoCapacity (weapons s (selectedWeapon s))
              | Rounds n \<Rightarrow> min (ammoCapacity (weapons s (selectedWeapon s)))
                                (magazine (weapons s (selectedWeapon s)) + n))
       \<and> totalAmmo (weapons (timerFires (reloadWeapon (reloadWeapon s))) (selectedWeapon s))
           = (case totalAmmo (weapons s (selectedWeapon s)) of
                Infinity \<Rightarrow> Infinity
              | Rounds n \<Rightarrow>
                  Rounds (n - (magazine (weapons (timerFires (reloadWeapon (reloadWeapon s)))
                                   (selectedWeapon s))
                               - magazine (weapons s (selectedWeapon s)))))
       \<and> (\<forall>k. k \<noteq> selectedWeapon s
             \<longrightarrow> weapons (timerFires (reloadWeapon (reloadWeapon s))) k = weapons s k)
       \<and> \<not> reloading (timerFires (reloadWeapon (reloadWeapon s)))
       \<and> timerFires (timerFires (reloadWeapon (reloadWeapon s)))
           = timerFires (reloadWeapon (reloadWeapon s)))"
proof (intro conjI impI)
  assume "reloading s \<or> ammoCapacity (weapons s (selectedWeapon s)) \<le> magazine (weapons s (selectedWeapon s))
       \<or> ammoNotPositive (totalAmmo (weapons s (selectedWeapon s)))"
  then show "reloadWeapon s = s"
    by (auto simp: reloadWeapon_def Let_def)
next
  assume a: "\<not> reloading s \<and> magazine (weapons s (selectedWeapon s)) < ammoCapacity (weapons s (selectedWeapon s))
       \<and> ammoPositive (totalAmmo (weapons s (selectedWeapon s)))"
  have r1: "reloadWeapon s = s\<lparr>reloading := True, reloadTimer := Some (selectedWeapon s)\<rparr>"
    using a by (simp add: reloadWeapon_def Let_def ammoNotPositive_iff)
  have r2: "reloadWeapon (reloadWeapon s) = reloadWeapon s"
    by (simp add: r1) (simp add: reloadWeapon_def)
  have tf: "timerFires (reloadWeapon s)
      = reloadCallback (selectedWeapon s) (s\<lparr>reloading := True, reloadTimer := None\<rparr>)"
    by (simp add: r1 timerFires_def)
  show "reloading (reloadWeapon s)" by (simp add: r1)
  show "reloadTimer (reloadWeapon s) = Some (selectedWeapon s)" by (simp add: r1)
  show "weapons (reloadWeapon s) = weapons s" by (simp add: r1)
  show "reloadWeapon (reloadWeapon s) = reloadWeapon s" by (rule r2)
  show "reloadWeapon (selectWeapon k' (reloadWeapon s)) = selectWeapon k' (reloadWeapon s)"
    by (simp add: r1) (simp add: selectWeapon_def reloadWeapon_def)
  show "magazine (weapons (timerFires (reloadWeapon (reloadWeapon s))) (selectedWeapon s))
           = (case totalAmmo (weapons s (selectedWeapon s)) of
                Infinity \<Rightarrow> ammoCapacity (weapons s (selectedWeapon s))
              | Rounds n \<Rightarrow> min (ammoCapacity (weapons s (selectedWeapon s)))
                                (magazine (weapons s (selectedWeapon s)) + n))"
    by (auto simp: r2 tf reloadCallback_weapon split: ammo.splits)
  show "totalAmmo (weapons (timerFires (reloadWeapon (reloadWeapon s))) (selectedWeapon s))
           = (case totalAmmo (weapons s (selectedWeapon s)) of
                Infinity \<Rightarrow> Infinity
              | Rounds n \<Rightarrow>
                  Rounds (n - (magazine (weapons (timerFires (reloadWeapon (reloadWeapon s)))
                                   (selectedWeapon s))
                               - magazine (weapons s (selectedWeapon s)))))"
    by (simp add: r2 tf reloadCallback_weapon split: ammo.splits)
  show "\<forall>k. k \<noteq> selectedWeapon s
             \<longrightarrow> weapons (timerFires (reloadWeapon (reloadWeapon s))) k = weapons s k"
    by (simp add: r2 tf reloadCallback_weapon)
  show "\<not> reloading (timerFires (reloadWeapon (reloadWeapon s)))"
    by (simp add: r2 tf reloadCallback_weapon)
  show "timerFires (timerFires (reloadWeapon (reloadWeapon s)))
           = timerFires (reloadWeapon (reloadWeapon s))"
    by (simp add: r2 tf) (simp add: timerFires_def reloadCallback_weapon)
qed


lemma emptyRifle_fields:
  "\<not> gameOver emptyRifle" "\<not> reloading emptyRifle" "selectedWeapon emptyRifle = shotgun"
  "magazine (weapons emptyRifle shotgun) = 0" "totalAmmo (weapons emptyRifle shotgun) = Infinity"
  "ammoCapacity (weapons emptyRifle shotgun) = 8"
  "enemies emptyRifle = [enemyAhead, enemyAside]" "kills emptyRifle = 0"
  by (simp_all add: emptyRifle_def startGame_def loadState_def initialWeapons_def)

theorem shootWeapon_empty_magazine_witness:
  "\<not> gameOver emptyRifle \<and> \<not> reloading emptyRifle
   \<and> magazine (weapons emptyRifle (selectedWeapon emptyRifle)) = 0
   \<and> ammoPositive (totalAmmo (weapons emptyRifle (selectedWeapon emptyRifle)))
   \<and> 0 < ammoCapacity (weapons emptyRifle (selectedWeapon emptyRifle))
   \<and> reloading (shootWeapon emptyRifle)
   \<and> enemies (shootWeapon emptyRifle) = [enemyAhead, enemyAside]
   \<and> kills (shootWeapon emptyRifle) = 0
   \<and> magazine (weapons (shootWeapon emptyRifle) shotgun) = 0"
proof -
  have h: "\<not> gameOver emptyRifle" "\<not> reloading emptyRifle"
    "magazine (weapons emptyRifle (selectedWeapon emptyRifle)) = 0"
    "ammoPositive (totalAmmo (weapons emptyRifle (selectedWeapon emptyRifle)))"
    "0 < ammoCapacity (weapons emptyRifle (selectedWeapon emptyRifle))"
    by (simp_all add: emptyRifle_fields)
  note th = shootWeapon_empty_magazine [OF h]
  from th have r: "reloading (shootWeapon emptyRifle)" by (elim conjE)
  from th have e: "enemies (shootWeapon emptyRifle) = enemies emptyRifle" by (elim conjE)
  from th have k: "kills (shootWeapon emptyRifle) = kills emptyRifle" by (elim conjE)
  from th have m: "magazine (weapons (shootWeapon emptyRifle) (selectedWeapon emptyRifle)) = 0"
    by (elim conjE)
  have e': "enemies (shootWeapon emptyRifle) = [enemyAhead, enemyAside]"
    using e by (simp add: emptyRifle_fields)
  have k': "kills (shootWeapon emptyRifle) = 0" using k by (simp add: emptyRifle_fields)
  have m': "magazine (weapons (shootWeapon emptyRifle) shotgun) = 0"
    using m by (simp add: emptyRifle_fields)
  show ?thesis
    by (rule conjI [OF h(1) conjI [OF h(2) conjI [OF h(3) conjI [OF h(4) conjI [OF h(5)
          conjI [OF r conjI [OF e' conjI [OF k' m']]]]]]]])
qed

lemma scarce_fields:
  "\<not> reloading scarce" "selectedWeapon scarce = shotgun"
  "magazine (weapons scarce shotgun) = 2" "totalAmmo (weapons scarce shotgun) = Rounds 3"
  "ammoCapacity (weapons scarce shotgun) = 8"
  by (simp_all add: scarce_def duel_fields weapons_init)

theorem reloadWeapon_once_witness:
  "ammoCapacity (weapons duel (selectedWeapon duel)) \<le> magazine (weapons duel (selectedWeapon duel))
   \<and> reloadWeapon duel = duel
   \<and> \<not> reloading (shootWeapon duel)
   \<and> magazine (weapons (shootWeapon duel) shotgun) = 7
   \<and> reloadWeapon (reloadWeapon (shootWeapon duel)) = reloadWeapon (shootWeapon duel)
   \<and> magazine (weapons (timerFires (reloadWeapon (reloadWeapon (shootWeapon duel)))) shotgun) = 8
   \<and> totalAmmo (weapons (timerFires (reloadWeapon (reloadWeapon (shootWeapon duel)))) shotgun) = Infinity
   \<and> weapons (timerFires (reloadWeapon (reloadWeapon (shootWeapon duel)))) laser = initialWeapons laser
   \<and> magazine (weapons scarce shotgun) = 2
   \<and> totalAmmo (weapons scarce shotgun) = Rounds 3
   \<and> reloadWeapon (reloadWeapon scarce) = reloadWeapon scarce
   \<and> magazine (weapons (timerFires (reloadWeapon (reloadWeapon scarce))) shotgun) = 5
   \<and> totalAmmo (weapons (timerFires (reloadWeapon (reloadWeapon scarce))) shotgun) = Rounds 0
   \<and> weapons (timerFires (reloadWeapon (reloadWeapon scarce))) laser = initialWeapons laser"
proof -
  have full: "ammoCapacity (weapons duel (selectedWeapon duel)) \<le> magazine (weapons duel (selectedWeapon duel))"
    by (simp add: duel_fields weapons_init)
  have noop: "reloadWeapon duel = duel"
    by (rule mp [OF conjunct1 [OF reloadWeapon_once [of duel laser]]])
       (rule disjI2, rule disjI1, rule full)
  have pre: "\<not> reloading (shootWeapon duel)
      \<and> magazine (weapons (shootWeapon duel) (selectedWeapon (shootWeapon duel)))
          < ammoCapacity (weapons (shootWeapon duel) (selectedWeapon (shootWeapon duel)))
      \<and> ammoPositive (totalAmmo (weapons (shootWeapon duel) (selectedWeapon (shootWeapon duel))))"
    by (simp add: shot1_fields)
  note th = mp [OF conjunct2 [OF reloadWeapon_once [of "shootWeapon duel" laser]] pre]
  from th have i: "reloadWeapon (reloadWeapon (shootWeapon duel)) = reloadWeapon (shootWeapon duel)"
    by (elim conjE)
  from th have m: "magazine (weapons (timerFires (reloadWeapon (reloadWeapon (shootWeapon duel))))
        (selectedWeapon (shootWeapon duel)))
      = (case totalAmmo (weapons (shootWeapon duel) (selectedWeapon (shootWeapon duel))) of
           Infinity \<Rightarrow> ammoCapacity (weapons (shootWeapon duel) (selectedWeapon (shootWeapon duel)))
         | Rounds n \<Rightarrow> min (ammoCapacity (weapons (shootWeapon duel) (selectedWeapon (shootWeapon duel))))
                           (magazine (weapons (shootWeapon duel) (selectedWeapon (shootWeapon duel))) + n))"
    by (elim conjE)
  from th have t: "totalAmmo (weapons (timerFires (reloadWeapon (reloadWeapon (shootWeapon duel))))
        (selectedWeapon (shootWeapon duel)))
      = (case totalAmmo (weapons (shootWeapon duel) (selectedWeapon (shootWeapon duel))) of
           Infinity \<Rightarrow> Infinity
         | Rounds n \<Rightarrow>
             Rounds (n - (magazine (weapons (timerFires (reloadWeapon (reloadWeapon (shootWeapon duel))))
                              (selectedWeapon (shootWeapon duel)))
                          - magazine (weapons (shootWeapon duel) (selectedWeapon (shootWeapon duel))))))"
    by (elim conjE)
  from th have o: "\<forall>k. k \<noteq> selectedWeapon (shootWeapon duel)
      \<longrightarrow> weapons (timerFires (reloadWeapon (reloadWeapon (shootWeapon duel)))) k
          = weapons (shootWeapon duel) k"
    by (elim conjE)
  have m': "magazine (weapons (timerFires (reloadWeapon (reloadWeapon (shootWeapon duel)))) shotgun) = 8"
    using m by (simp add: shot1_fields)
  have t': "totalAmmo (weapons (timerFires (reloadWeapon (reloadWeapon (shootWeapon duel)))) shotgun) = Infinity"
    using t by (simp add: shot1_fields)
  have o': "weapons (timerFires (reloadWeapon (reloadWeapon (shootWeapon duel)))) laser = initialWeapons laser"
    using o by (simp add: shot1_fields)
  have pre2: "\<not> reloading scarce
      \<and> magazine (weapons scarce (selectedWeapon scarce))
          < ammoCapacity (weapons scarce (selectedWeapon scarce))
      \<and> ammoPositive (totalAmmo (weapons scarce (selectedWeapon scarce)))"
    by (simp add: scarce_fields)
  note th2 = mp [OF conjunct2 [OF reloadWeapon_once [of scarce laser]] pre2]
  from th2 have i2: "reloadWeapon (reloadWeapon scarce) = reloadWeapon scarce"
    by (elim conjE)
  from th2 have m2: "magazine (weapons (timerFires (reloadWeapon (reloadWeapon scarce)))
        (selectedWeapon scarce))
      = (case totalAmmo (weapons scarce (selectedWeapon scarce)) of
           Infinity \<Rightarrow> ammoCapacity (weapons scarce (selectedWeapon scarce))
         | Rounds n \<Rightarrow> min (ammoCapacity (weapons scarce (selectedWeapon scarce)))
                           (magazine (weapons scarce (selectedWeapon scarce)) + n))"
    by (elim conjE)
  from th2 have t2: "totalAmmo (weapons (timerFires (reloadWeapon (reloadWeapon scarce)))
        (selectedWeapon scarce))
      = (case totalAmmo (weapons scarce (selectedWeapon scarce)) of
           Infinity \<Rightarrow> Infinity
         | Rounds n \<Rightarrow>
             Rounds (n - (magazine (weapons (timerFires (reloadWeapon (reloadWeapon scarce)))
                              (selectedWeapon scarce))
                          - magazine (weapons scarce (selectedWeapon scarce)))))"
    by (elim conjE)
  from th2 have o2: "\<forall>k. k \<noteq> selectedWeapon scarce
      \<longrightarrow> weapons (timerFires (reloadWeapon (reloadWeapon scarce))) k = weapons scarce k"
    by (elim conjE)
  have m2': "magazine (weapons (timerFires (reloadWeapon (reloadWeapon scarce))) shotgun) = 5"
    using m2 by (simp add: scarce_fields)
  have t2': "totalAmmo (weapons (timerFires (reloadWeapon (reloadWeapon scarce))) shotgun) = Rounds 0"
    using t2 m2' by (simp add: scarce_fields)
  have o2': "weapons (timerFires (reloadWeapon (reloadWeapon scarce))) laser = initialWeapons laser"
    using o2 by (simp add: scarce_fields) (simp add: scarce_def)
  show ?thesis
    by (rule conjI [OF full conjI [OF noop conjI [OF shot1_fields(2) conjI [OF shot1_fields(7)
          conjI [OF i conjI [OF m' conjI [OF t' conjI [OF o' conjI [OF scarce_fields(3)
          conjI [OF scarce_fields(4) conjI [OF i2 conjI [OF m2' conjI [OF t2' o2']]]]]]]]]]]]])
qed

subsection \<open>Rays and wall slices\<close>

lemma map_dims: "mapWidth = 16" "mapHeight = 16"
  by (simp_all add: mapWidth_def mapHeight_def map_grid_def)

lemma row2: "map_grid ! 2 = [1,0,0,0,0,1,1,1,0,0,1,1,1,0,0,1]"
  by (simp add: map_grid_def)

lemma march_east:
  "dda 1 0 \<lparr>mapX = 2, mapY = 2, sideDistX = 1 / 2, sideDistY = 1 / 2 * 10 ^ 30, side = 0, hitFlag = False\<rparr>
     = \<lparr>mapX = 5, mapY = 2, sideDistX = 7 / 2, sideDistY = 1 / 2 * 10 ^ 30, side = 0, hitFlag = True\<rparr>"
  apply (subst dda.simps)
  apply (simp add: walk_def outside_def wallAt_def map_dims row2 deltaDist_def stepDir_def)
  apply (subst dda.simps)
  apply (simp add: walk_def outside_def wallAt_def map_dims row2 deltaDist_def stepDir_def)
  apply (subst dda.simps)
  apply (simp add: walk_def outside_def wallAt_def map_dims row2 deltaDist_def stepDir_def)
  done

lemma start_east:
  "startMarch (initialPlayer\<lparr>angle := a\<rparr>) 1 0
     = \<lparr>mapX = 2, mapY = 2, sideDistX = 1 / 2, sideDistY = 1 / 2 * 10 ^ 30, side = 0, hitFlag = False\<rparr>"
  by (simp add: startMarch_def initialPlayer_def sideDistInit_def deltaDist_def)

lemma castRay_east:
  assumes "rayAngle (initialPlayer\<lparr>angle := a\<rparr>) i = 0"
  shows "castRay (initialPlayer\<lparr>angle := a\<rparr>) i = 5 / 2"
proof -
  have "castRay (initialPlayer\<lparr>angle := a\<rparr>) i
      = perpWallDist 1 0 (dda 1 0 (startMarch (initialPlayer\<lparr>angle := a\<rparr>) 1 0))"
    by (simp add: castRay_def assms)
  also have "\<dots> = perpWallDist 1 0 (dda 1 0
      \<lparr>mapX = 2, mapY = 2, sideDistX = 1 / 2, sideDistY = 1 / 2 * 10 ^ 30, side = 0, hitFlag = False\<rparr>)"
    by (simp only: start_east)
  also have "\<dots> = perpWallDist 1 0
      \<lparr>mapX = 5, mapY = 2, sideDistX = 7 / 2, sideDistY = 1 / 2 * 10 ^ 30, side = 0, hitFlag = True\<rparr>"
    by (simp only: march_east)
  also have "\<dots> = 5 / 2"
    by (simp add: perpWallDist_def deltaDist_def)
  finally show ?thesis .
qed

lemma central: "rayAngle initialPlayer 240 = 0"
  by (simp add: rayAngle_def initialPlayer_def FOV_def numRays_def)

lemma edge: "rayAngle turned 0 = 0" "angle turned = FOV / 2" "plx turned = 5 / 2" "ply turned = 5 / 2"
  by (simp_all add: rayAngle_def turned_def initialPlayer_def FOV_def numRays_def)


lemma castRay_central: "castRay initialPlayer 240 = 5 / 2"
  using castRay_east [of "angle initialPlayer" 240] central
  by (simp add: initialPlayer_def)

lemma castRay_edge: "castRay turned 0 = 5 / 2"
  using castRay_east [of "FOV / 2" 0] edge(1)
  by (simp add: turned_def)

lemma cos_half_FOV: "0 < cos (FOV / 2)" "cos (FOV / 2) < 1"
proof -
  have a: "0 < FOV / 2" "FOV / 2 < pi / 2"
    by (simp_all add: FOV_def)
  show "0 < cos (FOV / 2)" using a by (intro cos_gt_zero) auto
  have "cos (FOV / 2) < cos 0"
    using a pi_gt_zero by (intro cos_monotone_0_pi) auto
  then show "cos (FOV / 2) < 1" by simp
qed

text \<open>
  Claim C3. The claim asks that the z-buffer entry of a ray be the distance along the ray
  times cos(rayAngle - player.angle). The ray direction is the unit vector
  (cos rayAngle, sin rayAngle), so \<^verbatim>\<open>sideDist - deltaDist\<close> is the distance along the ray
  itself, and no cosine is applied. For the central ray of the spawn pose the two agree
  (2.5). With the player turned by half the field of view, ray 0 runs along +x from
  (2.5, 2.5) to the wall face at x = 5: the entry is 2.5, the length of that segment,
  while the projection on the view axis is 2.5 cos(FOV/2), which is smaller.
\<close>

theorem zBuffer_holds_distance_along_ray:
  "castRay initialPlayer 240 = 5 / 2
   \<and> rayAngle turned 0 - angle turned = - (FOV / 2)
   \<and> castRay turned 0 = 5 / 2
   \<and> plx turned + castRay turned 0 * cos (rayAngle turned 0) = 5
   \<and> ply turned + castRay turned 0 * sin (rayAngle turned 0) = ply turned
   \<and> sqrt ((5 - plx turned)\<^sup>2 + (ply turned - ply turned)\<^sup>2) = castRay turned 0
   \<and> castRay turned 0
        \<noteq> sqrt ((5 - plx turned)\<^sup>2 + (ply turned - ply turned)\<^sup>2)
            * cos (rayAngle turned 0 - angle turned)
   \<and> sqrt ((5 - plx turned)\<^sup>2 + (ply turned - ply turned)\<^sup>2)
            * cos (rayAngle turned 0 - angle turned) < castRay turned 0"
  using cos_half_FOV
  by (simp add: castRay_central castRay_edge edge)

text \<open>
  Claim C9, as stated, fails: the offsets of ray 0 and of ray N - 1 are not negations of
  each other, and the last ray does not lie at player.angle + FOV/2.
\<close>

theorem ray_fan_not_symmetric:
  "rayAngle initialPlayer 0 - angle initialPlayer
     \<noteq> - (rayAngle initialPlayer (numRays - 1 - 0) - angle initialPlayer)
   \<and> rayAngle initialPlayer (numRays - 1) \<noteq> angle initialPlayer + FOV / 2"
  by (simp add: rayAngle_def initialPlayer_def FOV_def numRays_def)

lemma FOV_pos: "0 < FOV"
  by (simp add: FOV_def)

text \<open>
  Claim C9, amended. Ray i lies at offset -FOV/2 + i FOV/N from the facing angle: the
  first ray at player.angle - FOV/2, the last at player.angle + FOV/2 - FOV/N, ray N/2
  exactly at the facing angle, neighbours FOV/N apart, every offset in [-FOV/2, FOV/2);
  for 0 < i < N the offset of ray i is the negation of the offset of ray N - i.
\<close>

theorem ray_fan:
  "rayAngle p 0 = angle p - FOV / 2
   \<and> rayAngle p (numRays - 1) = angle p + FOV / 2 - FOV / real numRays
   \<and> rayAngle p (numRays div 2) = angle p
   \<and> rayAngle p (Suc i) - rayAngle p i = FOV / real numRays
   \<and> (i < numRays \<longrightarrow>
         - (FOV / 2) \<le> rayAngle p i - angle p \<and> rayAngle p i - angle p < FOV / 2)
   \<and> (0 < i \<and> i < numRays \<longrightarrow>
         rayAngle p i - angle p = - (rayAngle p (numRays - i) - angle p))"
proof (intro conjI impI)
  show "rayAngle p 0 = angle p - FOV / 2"
    by (simp add: rayAngle_def)
  show "rayAngle p (numRays - 1) = angle p + FOV / 2 - FOV / real numRays"
    by (simp add: rayAngle_def numRays_def field_simps)
  show "rayAngle p (numRays div 2) = angle p"
    by (simp add: rayAngle_def numRays_def)
  show "rayAngle p (Suc i) - rayAngle p i = FOV / real numRays"
    by (simp add: rayAngle_def numRays_def field_simps)
next
  assume lt: "i < numRays"
  have "0 \<le> FOV * real i / real numRays"
    using FOV_pos by (simp add: numRays_def)
  then show "- (FOV / 2) \<le> rayAngle p i - angle p"
    by (simp add: rayAngle_def)
  have "real i / real numRays < 1" using lt by (simp add: numRays_def)
  then have "FOV * (real i / real numRays) < FOV * 1"
    using FOV_pos by (intro mult_strict_left_mono) auto
  moreover have "rayAngle p i - angle p = FOV * (real i / real numRays) - FOV / 2"
    by (simp add: rayAngle_def)
  ultimately show "rayAngle p i - angle p < FOV / 2"
    by linarith
next
  assume "0 < i \<and> i < numRays"
  then have "real (numRays - i) = real numRays - real i" by (simp add: of_nat_diff)
  then show "rayAngle p i - angle p = - (rayAngle p (numRays - i) - angle p)"
    by (simp add: rayAngle_def numRays_def field_simps)
qed

theorem ray_fan_witness:
  "(1::nat) < numRays
   \<and> rayAngle initialPlayer 1 - angle initialPlayer
        = - (rayAngle initialPlayer (numRays - 1) - angle initialPlayer)
   \<and> rayAngle initialPlayer 1 - angle initialPlayer < FOV / 2
   \<and> rayAngle initialPlayer 240 = 0"
proof -
  have h: "(1::nat) < numRays" by (simp add: numRays_def)
  note th = ray_fan [of initialPlayer 1]
  from th have c: "rayAngle initialPlayer (numRays div 2) = angle initialPlayer"
    by (elim conjE)
  from th have b: "1 < numRays \<longrightarrow>
         - (FOV / 2) \<le> rayAngle initialPlayer 1 - angle initialPlayer
         \<and> rayAngle initialPlayer 1 - angle initialPlayer < FOV / 2"
    by (elim conjE)
  from th have s: "0 < (1::nat) \<and> 1 < numRays \<longrightarrow>
         rayAngle initialPlayer 1 - angle initialPlayer
           = - (rayAngle initialPlayer (numRays - 1) - angle initialPlayer)"
    by (elim conjE)
  have s': "rayAngle initialPlayer 1 - angle initialPlayer
           = - (rayAngle initialPlayer (numRays - 1) - angle initialPlayer)"
    using s h by simp
  have b': "rayAngle initialPlayer 1 - angle initialPlayer < FOV / 2"
    using b h by simp
  have c': "rayAngle initialPlayer 240 = 0"
    using c by (simp add: numRays_def initialPlayer_def)
  show ?thesis by (rule conjI [OF h conjI [OF s' conjI [OF b' c']]])
qed

lemma tan_half_FOV: "0 < tan (FOV / 2)" "tan (FOV / 2) < 2"
proof -
  have a: "0 < FOV / 2" "FOV / 2 < pi / 3" "FOV / 2 < pi / 2"
    by (simp_all add: FOV_def)
  show "0 < tan (FOV / 2)" using a by (intro tan_gt_zero) auto
  have "tan (FOV / 2) < tan (pi / 3)"
    using a pi_gt_zero by (intro tan_monotone) auto
  also have "\<dots> = sqrt 3" by (rule tan_60)
  also have "\<dots> < sqrt 4" by (rule real_sqrt_less_mono) simp
  also have "\<dots> = 2" by simp
  finally show "tan (FOV / 2) < 2" .
qed

lemma row1: "map_grid ! Suc 0 ! 0 = 1"
  by (simp add: map_grid_def)

lemma march_west:
  "dda (- 1) 0 \<lparr>mapX = 1, mapY = 1, sideDistX = 1 / 2, sideDistY = 1 / 2 * 10 ^ 30, side = 0, hitFlag = False\<rparr>
     = \<lparr>mapX = 0, mapY = 1, sideDistX = 3 / 2, sideDistY = 1 / 2 * 10 ^ 30, side = 0, hitFlag = True\<rparr>"
  apply (subst dda.simps)
  apply (simp add: walk_def outside_def wallAt_def map_dims row1 deltaDist_def stepDir_def)
  done

lemma start_west:
  "startMarch nearWall (- 1) 0
     = \<lparr>mapX = 1, mapY = 1, sideDistX = 1 / 2, sideDistY = 1 / 2 * 10 ^ 30, side = 0, hitFlag = False\<rparr>"
  by (simp add: startMarch_def nearWall_def initialPlayer_def sideDistInit_def deltaDist_def)

lemma west: "rayAngle nearWall 240 = pi"
  by (simp add: rayAngle_def nearWall_def FOV_def numRays_def)

lemma castRay_west: "castRay nearWall 240 = 1 / 2"
proof -
  have "castRay nearWall 240 = perpWallDist (- 1) 0 (dda (- 1) 0 (startMarch nearWall (- 1) 0))"
    by (simp add: castRay_def west Let_def)
  also have "\<dots> = perpWallDist (- 1) 0 (dda (- 1) 0
      \<lparr>mapX = 1, mapY = 1, sideDistX = 1 / 2, sideDistY = 1 / 2 * 10 ^ 30, side = 0, hitFlag = False\<rparr>)"
    by (simp only: start_west)
  also have "\<dots> = perpWallDist (- 1) 0
      \<lparr>mapX = 0, mapY = 1, sideDistX = 3 / 2, sideDistY = 1 / 2 * 10 ^ 30, side = 0, hitFlag = True\<rparr>"
    by (simp only: march_west)
  also have "\<dots> = 1 / 2"
    by (simp add: perpWallDist_def deltaDist_def)
  finally show ?thesis .
qed

lemma example_view:
  "screenHeight exampleCanvas = 480" "horizon exampleCanvas = 240"
  "projectionPlane exampleCanvas = 240 / tan (FOV / 2)"
  by (simp_all add: screenHeight_def horizon_def projectionPlane_def exampleCanvas_def hudHeight_def)

lemma near_height: "wallHeight exampleCanvas (1 / 2) = 480 / tan (FOV / 2)"
  "240 < wallHeight exampleCanvas (1 / 2)"
proof -
  show e: "wallHeight exampleCanvas (1 / 2) = 480 / tan (FOV / 2)"
    by (simp add: wallHeight_def example_view)
  have "240 * tan (FOV / 2) < 480" using tan_half_FOV by simp
  then have "240 < 480 / tan (FOV / 2)"
    using tan_half_FOV(1) by (simp add: pos_less_divide_eq)
  then show "240 < wallHeight exampleCanvas (1 / 2)" by (simp only: e)
qed

lemma hitFlag_irrelevant:
  "outside (m\<lparr>hitFlag := b\<rparr>) = outside m" "wallAt (m\<lparr>hitFlag := b\<rparr>) = wallAt m"
  by (simp_all add: outside_def wallAt_def)

lemma dda_stops: "hitFlag (dda rayDirX rayDirY m)
    \<and> (outside (dda rayDirX rayDirY m) \<or> wallAt (dda rayDirX rayDirY m))"
proof (induction rayDirX rayDirY m rule: dda.induct)
  case (1 rayDirX rayDirY m)
  show ?case
  proof (cases "outside (walk rayDirX rayDirY m)")
    case True
    then show ?thesis by (simp add: dda.simps [of rayDirX rayDirY m] hitFlag_irrelevant)
  next
    case False
    show ?thesis
    proof (cases "wallAt (walk rayDirX rayDirY m)")
      case True
      with False show ?thesis
        by (simp add: dda.simps [of rayDirX rayDirY m] hitFlag_irrelevant)
    next
      case no: False
      have "dda rayDirX rayDirY m = dda rayDirX rayDirY (walk rayDirX rayDirY m)"
        using False no by (simp add: dda.simps [of rayDirX rayDirY m])
      with "1.IH" [OF False no] show ?thesis by simp
    qed
  qed
qed

lemma col_first: "map (\<lambda>row. row ! 0) map_grid = replicate 16 1"
  by (simp add: map_grid_def eval_nat_numeral)

lemma col_last: "map (\<lambda>row. row ! 15) map_grid = replicate 16 1"
  by (simp add: map_grid_def eval_nat_numeral)

lemma row_first: "map_grid ! 0 = replicate 16 1"
  by (simp add: map_grid_def eval_nat_numeral)

lemma row_last: "map_grid ! 15 = replicate 16 1"
  by (simp add: map_grid_def eval_nat_numeral)

lemma map_length: "length map_grid = 16"
  by (simp add: map_grid_def)

lemma border_solid:
  assumes "r < 16" "c < 16" "r = 0 \<or> r = 15 \<or> c = 0 \<or> c = 15"
  shows "map_grid ! r ! c = 1"
proof -
  have c0: "map_grid ! r ! 0 = 1"
  proof -
    have "map_grid ! r ! 0 = map (\<lambda>row. row ! 0) map_grid ! r"
      using assms(1) by (simp add: map_length)
    also have "\<dots> = 1" using assms(1) by (simp only: col_first nth_replicate)
    finally show ?thesis .
  qed
  have c15: "map_grid ! r ! 15 = 1"
  proof -
    have "map_grid ! r ! 15 = map (\<lambda>row. row ! 15) map_grid ! r"
      using assms(1) by (simp add: map_length)
    also have "\<dots> = 1" using assms(1) by (simp only: col_last nth_replicate)
    finally show ?thesis .
  qed
  have r0: "map_grid ! 0 ! c = 1" using assms(2) by (simp only: row_first nth_replicate)
  have r15: "map_grid ! 15 ! c = 1" using assms(2) by (simp only: row_last nth_replicate)
  from assms(3) c0 c15 r0 r15 show ?thesis by auto
qed

lemma walk_from_interior:
  assumes "interior m"
  shows "\<not> outside (walk rayDirX rayDirY m)"
    and "\<not> wallAt (walk rayDirX rayDirY m) \<Longrightarrow> interior (walk rayDirX rayDirY m)"
proof -
  let ?w = "walk rayDirX rayDirY m"
  have range: "0 \<le> mapX ?w" "mapX ?w \<le> 15" "0 \<le> mapY ?w" "mapY ?w \<le> 15"
    using assms by (auto simp: interior_def walk_def stepDir_def)
  then show "\<not> outside ?w" by (simp add: outside_def map_dims)
  assume nw: "\<not> wallAt ?w"
  have "\<not> (nat (mapY ?w) = 0 \<or> nat (mapY ?w) = 15 \<or> nat (mapX ?w) = 0 \<or> nat (mapX ?w) = 15)"
  proof
    assume b: "nat (mapY ?w) = 0 \<or> nat (mapY ?w) = 15 \<or> nat (mapX ?w) = 0 \<or> nat (mapX ?w) = 15"
    have "map_grid ! nat (mapY ?w) ! nat (mapX ?w) = 1"
      using range by (intro border_solid [OF _ _ b]) auto
    then show False using nw by (simp add: wallAt_def)
  qed
  then show "interior ?w" using range by (auto simp: interior_def)
qed

lemma dda_stays_inside:
  "interior m \<Longrightarrow> \<not> outside (dda rayDirX rayDirY m) \<and> wallAt (dda rayDirX rayDirY m)"
proof (induction rayDirX rayDirY m rule: dda.induct)
  case (1 rayDirX rayDirY m)
  note inn = walk_from_interior [OF "1.prems", of rayDirX rayDirY]
  show ?case
  proof (cases "wallAt (walk rayDirX rayDirY m)")
    case True
    with inn(1) show ?thesis
      by (simp add: dda.simps [of rayDirX rayDirY m] hitFlag_irrelevant)
  next
    case False
    have "dda rayDirX rayDirY m = dda rayDirX rayDirY (walk rayDirX rayDirY m)"
      using False inn(1) by (simp add: dda.simps [of rayDirX rayDirY m])
    with "1.IH" [OF inn(1) False inn(2) [OF False]] show ?thesis by simp
  qed
qed


lemma start_interior:
  assumes "1 \<le> plx p" "plx p < 15" "1 \<le> ply p" "ply p < 15"
  shows "interior (startMarch p rayDirX rayDirY)"
proof -
  have "1 \<le> \<lfloor>plx p\<rfloor>" "\<lfloor>plx p\<rfloor> \<le> 14" "1 \<le> \<lfloor>ply p\<rfloor>" "\<lfloor>ply p\<rfloor> \<le> 14"
    using assms by (simp_all add: le_floor_iff floor_le_iff)
  then show ?thesis by (simp add: interior_def startMarch_def)
qed

lemma declaredNames_distinct:
  "\<not> distinct (declaredNames AsShipped)"
  "distinct (declaredNames BeforeOnly)"
  "distinct (declaredNames AfterOnly)"
  by (simp_all add: declaredNames_def)

lemma castRays_AsShipped: "castRays AsShipped tex cv p = Inl SyntaxError"
  by (simp add: castRays_def declaredNames_distinct)

lemma columns_start: "[0..<numRays] = 0 # [Suc 0..<numRays]"
  by (rule upt_conv_Cons) (simp add: numRays_def)

lemma castRays_texture:
  "castRays BeforeOnly True cv p = Inl ReferenceError"
  "castRays AfterOnly True cv p = Inl ReferenceError"
  by (simp_all add: castRays_def declaredNames_distinct columns_start drawColumn_def)

lemma columnLoop_BeforeOnly:
  "columnLoop BeforeOnly False cv p cols zBuffer drawn
     = Inr (zBuffer @ map (castRay p) cols,
            drawn @ concat (map (\<lambda>i. [patchSlice cv i (startYBefore cv (castRay p i))
                                           (endYBefore cv (castRay p i)),
                                         wallSlice cv i (startYBefore cv (castRay p i))
                                           (castRay p i)]) cols))"
  by (induction cols arbitrary: zBuffer drawn) (simp_all add: drawColumn_def)

lemma columnLoop_AfterOnly:
  "columnLoop AfterOnly False cv p cols zBuffer drawn
     = Inr (zBuffer @ map (castRay p) cols,
            drawn @ concat (map (\<lambda>i. [patchSlice cv i (startYAfter cv (castRay p i))
                                           (endYAfter cv (castRay p i)),
                                         wallSlice cv i (startYAfter cv (castRay p i))
                                           (castRay p i)]) cols))"
  by (induction cols arbitrary: zBuffer drawn) (simp_all add: drawColumn_def)

lemma concat_pairs:
  "length (concat (map (\<lambda>i. [f i, g i]) [0..<n])) = 2 * n"
  "i < n \<Longrightarrow> concat (map (\<lambda>i. [f i, g i]) [0..<n]) ! (2 * i) = f i"
  "i < n \<Longrightarrow> concat (map (\<lambda>i. [f i, g i]) [0..<n]) ! Suc (2 * i) = g i"
proof -
  show len: "\<And>n. length (concat (map (\<lambda>i. [f i, g i]) [0..<n])) = 2 * n"
    subgoal for n by (induction n) simp_all
    done
  show "i < n \<Longrightarrow> concat (map (\<lambda>i. [f i, g i]) [0..<n]) ! (2 * i) = f i"
  proof (induction n)
    case 0
    then show ?case by simp
  next
    case (Suc n)
    show ?case
    proof (cases "i < n")
      case True
      then show ?thesis using Suc.IH by (simp add: nth_append len)
    next
      case False
      with Suc.prems have "i = n" by simp
      then show ?thesis by (simp add: nth_append len)
    qed
  qed
  show "i < n \<Longrightarrow> concat (map (\<lambda>i. [f i, g i]) [0..<n]) ! Suc (2 * i) = g i"
  proof (induction n)
    case 0
    then show ?case by simp
  next
    case (Suc n)
    show ?case
    proof (cases "i < n")
      case True
      then show ?thesis using Suc.IH by (simp add: nth_append len)
    next
      case False
      with Suc.prems have "i = n" by simp
      then show ?thesis by (simp add: nth_append len)
    qed
  qed
qed


lemma castRays_BeforeOnly:
  "castRays BeforeOnly False cv p
     = Inr (map (castRay p) [0..<numRays],
            concat (map (\<lambda>i. [patchSlice cv i (startYBefore cv (castRay p i))
                                   (endYBefore cv (castRay p i)),
                                 wallSlice cv i (startYBefore cv (castRay p i)) (castRay p i)])
                      [0..<numRays]))"
  by (simp add: castRays_def declaredNames_distinct columnLoop_BeforeOnly)

lemma castRays_AfterOnly:
  "castRays AfterOnly False cv p
     = Inr (map (castRay p) [0..<numRays],
            concat (map (\<lambda>i. [patchSlice cv i (startYAfter cv (castRay p i))
                                   (endYAfter cv (castRay p i)),
                                 wallSlice cv i (startYAfter cv (castRay p i)) (castRay p i)])
                      [0..<numRays]))"
  by (simp add: castRays_def declaredNames_distinct columnLoop_AfterOnly)

lemma column_240: "(240::nat) < numRays" "(480::nat) = 2 * 240" "(481::nat) = Suc (2 * 240)"
  by (simp_all add: numRays_def)

lemma slices_AfterOnly:
  "snd (projr (castRays AfterOnly False cv p)) ! 480
     = patchSlice cv 240 (startYAfter cv (castRay p 240)) (endYAfter cv (castRay p 240))"
  "snd (projr (castRays AfterOnly False cv p)) ! 481
     = wallSlice cv 240 (startYAfter cv (castRay p 240)) (castRay p 240)"
proof -
  show "snd (projr (castRays AfterOnly False cv p)) ! 480
     = patchSlice cv 240 (startYAfter cv (castRay p 240)) (endYAfter cv (castRay p 240))"
    unfolding castRays_AfterOnly sum.sel snd_conv column_240(2)
    by (rule concat_pairs(2) [OF column_240(1)])
  show "snd (projr (castRays AfterOnly False cv p)) ! 481
     = wallSlice cv 240 (startYAfter cv (castRay p 240)) (castRay p 240)"
    unfolding castRays_AfterOnly sum.sel snd_conv column_240(3)
    by (rule concat_pairs(3) [OF column_240(1)])
qed

lemma slices_BeforeOnly:
  "snd (projr (castRays BeforeOnly False cv p)) ! 480
     = patchSlice cv 240 (startYBefore cv (castRay p 240)) (endYBefore cv (castRay p 240))"
  "snd (projr (castRays BeforeOnly False cv p)) ! 481
     = wallSlice cv 240 (startYBefore cv (castRay p 240)) (castRay p 240)"
proof -
  show "snd (projr (castRays BeforeOnly False cv p)) ! 480
     = patchSlice cv 240 (startYBefore cv (castRay p 240)) (endYBefore cv (castRay p 240))"
    unfolding castRays_BeforeOnly sum.sel snd_conv column_240(2)
    by (rule concat_pairs(2) [OF column_240(1)])
  show "snd (projr (castRays BeforeOnly False cv p)) ! 481
     = wallSlice cv 240 (startYBefore cv (castRay p 240)) (castRay p 240)"
    unfolding castRays_BeforeOnly sum.sel snd_conv column_240(3)
    by (rule concat_pairs(3) [OF column_240(1)])
qed

lemma near_after:
  "startYAfter exampleCanvas (1 / 2) = 0" "endYAfter exampleCanvas (1 / 2) = horizon exampleCanvas"
  using near_height(2) by (simp_all add: startYAfter_def endYAfter_def example_view)

lemma near_before:
  "359 < endYBefore exampleCanvas (1 / 2)"
proof -
  let ?h = "wallHeight exampleCanvas (1 / 2)"
  have "240 - ?h / 2 - 1 < real_of_int \<lfloor>240 - ?h / 2\<rfloor>" by linarith
  then have "239 + ?h / 2 < real_of_int \<lfloor>240 - ?h / 2\<rfloor> + ?h" by simp
  moreover have "359 < 239 + ?h / 2" using near_height(2) by simp
  ultimately show ?thesis by (simp add: endYBefore_def startYBefore_def example_view)
qed

text \<open>
  Claim C4. The claim asks that the bottom edge of every drawn slice lie on the horizon,
  also when the top is clipped to 0. As shipped, \<^verbatim>\<open>castRays\<close> declares \<^verbatim>\<open>wallHeight\<close>,
  \<^verbatim>\<open>startY\<close> and \<^verbatim>\<open>endY\<close> twice in its loop body and is refused with a SyntaxError: no
  slice is drawn at all. With either group of declarations deleted, the call throws a
  ReferenceError in column 0 as soon as the texture is complete. While the texture is
  loading, half a cell from a wall on a 480 pixel view (the wall height exceeds the
  half-screen): with the first group deleted, the rectangle of the patch in column 240
  (rectangle 480 of the call) runs from row 0 to the horizon, and the rectangle of the
  older slice code, drawn after it in the same column with the full wall height
  (rectangle 481), ends below the horizon; with the second group deleted, both
  rectangles are centred on the midline and end below the horizon.
\<close>

theorem wall_slices_below_horizon:
  "castRay nearWall 240 = 1 / 2
   \<and> horizon exampleCanvas = 240
   \<and> castRays AsShipped False exampleCanvas nearWall = Inl SyntaxError
   \<and> castRays AsShipped True exampleCanvas nearWall = Inl SyntaxError
   \<and> castRays AfterOnly True exampleCanvas nearWall = Inl ReferenceError
   \<and> castRays BeforeOnly True exampleCanvas nearWall = Inl ReferenceError
   \<and> \<not> isl (castRays AfterOnly False exampleCanvas nearWall)
   \<and> snd (projr (castRays AfterOnly False exampleCanvas nearWall)) ! 480
        = patchSlice exampleCanvas 240 0 (horizon exampleCanvas)
   \<and> snd (projr (castRays AfterOnly False exampleCanvas nearWall)) ! 481
        = wallSlice exampleCanvas 240 0 (1 / 2)
   \<and> bottom (patchSlice exampleCanvas 240 0 (horizon exampleCanvas)) = horizon exampleCanvas
   \<and> horizon exampleCanvas < bottom (wallSlice exampleCanvas 240 0 (1 / 2))
   \<and> \<not> isl (castRays BeforeOnly False exampleCanvas nearWall)
   \<and> snd (projr (castRays BeforeOnly False exampleCanvas nearWall)) ! 480
        = patchSlice exampleCanvas 240 (startYBefore exampleCanvas (1 / 2))
            (endYBefore exampleCanvas (1 / 2))
   \<and> snd (projr (castRays BeforeOnly False exampleCanvas nearWall)) ! 481
        = wallSlice exampleCanvas 240 (startYBefore exampleCanvas (1 / 2)) (1 / 2)
   \<and> horizon exampleCanvas
        < bottom (patchSlice exampleCanvas 240 (startYBefore exampleCanvas (1 / 2))
            (endYBefore exampleCanvas (1 / 2)))
   \<and> horizon exampleCanvas
        < bottom (wallSlice exampleCanvas 240 (startYBefore exampleCanvas (1 / 2)) (1 / 2))"
proof -
  have a1: "castRay nearWall 240 = 1 / 2" by (rule castRay_west)
  have a2: "horizon exampleCanvas = 240" by (rule example_view)
  have a3: "castRays AsShipped False exampleCanvas nearWall = Inl SyntaxError"
    by (rule castRays_AsShipped)
  have a4: "castRays AsShipped True exampleCanvas nearWall = Inl SyntaxError"
    by (rule castRays_AsShipped)
  have a5: "castRays AfterOnly True exampleCanvas nearWall = Inl ReferenceError"
    by (rule castRays_texture)
  have a6: "castRays BeforeOnly True exampleCanvas nearWall = Inl ReferenceError"
    by (rule castRays_texture)
  have a7: "\<not> isl (castRays AfterOnly False exampleCanvas nearWall)"
    by (simp only: castRays_AfterOnly sum.disc simp_thms)
  have a8: "snd (projr (castRays AfterOnly False exampleCanvas nearWall)) ! 480
        = patchSlice exampleCanvas 240 0 (horizon exampleCanvas)"
    by (simp only: slices_AfterOnly a1 near_after)
  have a9: "snd (projr (castRays AfterOnly False exampleCanvas nearWall)) ! 481
        = wallSlice exampleCanvas 240 0 (1 / 2)"
    by (simp only: slices_AfterOnly a1 near_after)
  have a10: "bottom (patchSlice exampleCanvas 240 0 (horizon exampleCanvas)) = horizon exampleCanvas"
    by (simp add: bottom_def patchSlice_def)
  have a11: "horizon exampleCanvas < bottom (wallSlice exampleCanvas 240 0 (1 / 2))"
    using near_height(2) by (simp add: bottom_def wallSlice_def example_view)
  have a12: "\<not> isl (castRays BeforeOnly False exampleCanvas nearWall)"
    by (simp only: castRays_BeforeOnly sum.disc simp_thms)
  have a13: "snd (projr (castRays BeforeOnly False exampleCanvas nearWall)) ! 480
        = patchSlice exampleCanvas 240 (startYBefore exampleCanvas (1 / 2))
            (endYBefore exampleCanvas (1 / 2))"
    by (simp only: slices_BeforeOnly a1)
  have a14: "snd (projr (castRays BeforeOnly False exampleCanvas nearWall)) ! 481
        = wallSlice exampleCanvas 240 (startYBefore exampleCanvas (1 / 2)) (1 / 2)"
    by (simp only: slices_BeforeOnly a1)
  have a15: "horizon exampleCanvas
        < bottom (patchSlice exampleCanvas 240 (startYBefore exampleCanvas (1 / 2))
            (endYBefore exampleCanvas (1 / 2)))"
    using near_before by (simp add: bottom_def patchSlice_def example_view)
  have a16: "horizon exampleCanvas
        < bottom (wallSlice exampleCanvas 240 (startYBefore exampleCanvas (1 / 2)) (1 / 2))"
    using near_before by (simp add: bottom_def wallSlice_def example_view endYBefore_def)
  show ?thesis
    by (rule conjI [OF a1 conjI [OF a2 conjI [OF a3 conjI [OF a4 conjI [OF a5 conjI [OF a6
          conjI [OF a7 conjI [OF a8 conjI [OF a9 conjI [OF a10 conjI [OF a11 conjI [OF a12
          conjI [OF a13 conjI [OF a14 conjI [OF a15 a16]]]]]]]]]]]]]]])
qed

lemma spawn_interior: "interior (startMarch initialPlayer rayDirX rayDirY)"
  by (rule start_interior) (simp_all add: initialPlayer_def)

text \<open>
  Claim C8. The grid march is a total function (its termination is proved with the
  definition: every step that stays in the map brings the march one cell nearer to
  leaving it in its two fixed directions); by \<open>dda_stops\<close> it ends, from any start and for
  any ray direction, with \<^verbatim>\<open>hit\<close> set on a cell outside the map or on a wall cell, and by
  \<open>dda_stays_inside\<close> on a wall cell when it starts inside the solid border. So the
  central ray of the spawn pose ends on a wall cell, at depth 2.5. The function around
  the march does not return as the claim says: as shipped, \<^verbatim>\<open>castRays\<close> is refused with a
  SyntaxError, whatever the state of the texture; with either group of duplicate
  declarations deleted, it throws a ReferenceError in column 0 once the texture is
  complete; only while the texture is still loading does it return, with one depth per
  column, \<open>numRays\<close> in all.
\<close>

theorem castRays_does_not_return:
  "hitFlag (dda 1 0 (startMarch initialPlayer 1 0))
   \<and> wallAt (dda 1 0 (startMarch initialPlayer 1 0))
   \<and> castRay initialPlayer 240 = 5 / 2
   \<and> castRays AsShipped False exampleCanvas initialPlayer = Inl SyntaxError
   \<and> castRays AsShipped True exampleCanvas initialPlayer = Inl SyntaxError
   \<and> castRays BeforeOnly True exampleCanvas initialPlayer = Inl ReferenceError
   \<and> castRays AfterOnly True exampleCanvas initialPlayer = Inl ReferenceError
   \<and> \<not> isl (castRays BeforeOnly False exampleCanvas initialPlayer)
   \<and> fst (projr (castRays BeforeOnly False exampleCanvas initialPlayer))
        = map (castRay initialPlayer) [0..<numRays]
   \<and> \<not> isl (castRays AfterOnly False exampleCanvas initialPlayer)
   \<and> fst (projr (castRays AfterOnly False exampleCanvas initialPlayer))
        = map (castRay initialPlayer) [0..<numRays]
   \<and> length (fst (projr (castRays AfterOnly False exampleCanvas initialPlayer))) = 480"
proof -
  have b1: "hitFlag (dda 1 0 (startMarch initialPlayer 1 0))"
    using dda_stops [of 1 0 "startMarch initialPlayer 1 0"] by (rule conjunct1)
  have b2: "wallAt (dda 1 0 (startMarch initialPlayer 1 0))"
    using dda_stays_inside [OF spawn_interior, of 1 0] by (rule conjunct2)
  have b3: "castRay initialPlayer 240 = 5 / 2" by (rule castRay_central)
  have b4: "castRays AsShipped False exampleCanvas initialPlayer = Inl SyntaxError"
    by (rule castRays_AsShipped)
  have b5: "castRays AsShipped True exampleCanvas initialPlayer = Inl SyntaxError"
    by (rule castRays_AsShipped)
  have b6: "castRays BeforeOnly True exampleCanvas initialPlayer = Inl ReferenceError"
    by (rule castRays_texture)
  have b7: "castRays AfterOnly True exampleCanvas initialPlayer = Inl ReferenceError"
    by (rule castRays_texture)
  have b8: "\<not> isl (castRays BeforeOnly False exampleCanvas initialPlayer)"
    by (simp only: castRays_BeforeOnly sum.disc simp_thms)
  have b9: "fst (projr (castRays BeforeOnly False exampleCanvas initialPlayer))
        = map (castRay initialPlayer) [0..<numRays]"
    by (simp only: castRays_BeforeOnly sum.sel fst_conv)
  have b10: "\<not> isl (castRays AfterOnly False exampleCanvas initialPlayer)"
    by (simp only: castRays_AfterOnly sum.disc simp_thms)
  have b11: "fst (projr (castRays AfterOnly False exampleCanvas initialPlayer))
        = map (castRay initialPlayer) [0..<numRays]"
    by (simp only: castRays_AfterOnly sum.sel fst_conv)
  have b12: "length (fst (projr (castRays AfterOnly False exampleCanvas initialPlayer))) = 480"
    unfolding b11 by (simp add: numRays_def)
  show ?thesis
    by (rule conjI [OF b1 conjI [OF b2 conjI [OF b3 conjI [OF b4 conjI [OF b5 conjI [OF b6
          conjI [OF b7 conjI [OF b8 conjI [OF b9 conjI [OF b10 conjI [OF b11 b12]]]]]]]]]]])
qed

subsection \<open>Player movement\<close>

lemma turn_pos: "plx (turn dt p) = plx p" "ply (turn dt p) = ply p"
  by (simp_all add: turn_def Let_def)

lemma emptyAt_row: "emptyAt px py \<Longrightarrow> \<exists>c. mapAt \<lfloor>py\<rfloor> \<lfloor>x\<rfloor> = Inr c"
  by (auto simp: emptyAt_def mapAt_def Let_def split: if_splits)

lemma afterCall_updatePlayer:
  assumes "emptyAt (plx p) (ply p)"
  shows "afterCall (updatePlayer dt p)
    = (turn dt p)\<lparr>plx := (if emptyAt (newX dt p) (ply p) then newX dt p else plx p),
        ply := (if emptyAt (if emptyAt (newX dt p) (ply p) then newX dt p else plx p) (newY dt p)
                then newY dt p else ply p)\<rparr>"
proof -
  obtain c where c: "mapAt \<lfloor>ply p\<rfloor> \<lfloor>newX dt p\<rfloor> = Inr c"
    using emptyAt_row [OF assms] by blast
  show ?thesis
  proof (cases "emptyAt (newX dt p) (ply p)")
    case True
    then have c0: "c = Some 0" using c by (simp add: emptyAt_def)
    show ?thesis
      using True
      by (cases "mapAt \<lfloor>newY dt p\<rfloor> \<lfloor>newX dt p\<rfloor>")
         (auto simp: updatePlayer_def Let_def turn_pos c c0 emptyAt_def)
  next
    case False
    then have c0: "c \<noteq> Some 0" using c by (simp add: emptyAt_def)
    have same: "(turn dt p)\<lparr>plx := plx p\<rparr> = turn dt p"
      using turn_pos(1) [of dt p] by (cases "turn dt p") simp
    show ?thesis
      using False
      by (cases "mapAt \<lfloor>newY dt p\<rfloor> \<lfloor>plx p\<rfloor>")
         (auto simp: updatePlayer_def Let_def turn_pos c c0 emptyAt_def same)
  qed
qed


lemma throws_iff:
  assumes "emptyAt (plx p) (ply p)"
  shows "(\<exists>e q. updatePlayer dt p = Inl (e, q))
     \<longleftrightarrow> \<not> (0 \<le> \<lfloor>newY dt p\<rfloor> \<and> \<lfloor>newY dt p\<rfloor> < mapHeight)"
proof -
  obtain c where c: "mapAt \<lfloor>ply p\<rfloor> \<lfloor>newX dt p\<rfloor> = Inr c"
    using emptyAt_row [OF assms] by blast
  have row: "\<And>x. (\<exists>e. mapAt \<lfloor>newY dt p\<rfloor> x = Inl e)
      \<longleftrightarrow> \<not> (0 \<le> \<lfloor>newY dt p\<rfloor> \<and> \<lfloor>newY dt p\<rfloor> < mapHeight)"
    by (auto simp: mapAt_def Let_def mapHeight_def)
  show ?thesis
  proof (cases "c = Some 0")
    case True
    have "(\<exists>e q. updatePlayer dt p = Inl (e, q))
        \<longleftrightarrow> (\<exists>e. mapAt \<lfloor>newY dt p\<rfloor> \<lfloor>newX dt p\<rfloor> = Inl e)"
      using True
      by (cases "mapAt \<lfloor>newY dt p\<rfloor> \<lfloor>newX dt p\<rfloor>")
         (simp_all add: updatePlayer_def Let_def turn_pos c)
    then show ?thesis by (simp only: row)
  next
    case False
    have "(\<exists>e q. updatePlayer dt p = Inl (e, q))
        \<longleftrightarrow> (\<exists>e. mapAt \<lfloor>newY dt p\<rfloor> \<lfloor>plx p\<rfloor> = Inl e)"
      using False
      by (cases "mapAt \<lfloor>newY dt p\<rfloor> \<lfloor>plx p\<rfloor>")
         (simp_all add: updatePlayer_def Let_def turn_pos c)
    then show ?thesis by (simp only: row)
  qed
qed

text \<open>
  Claim C5. From a player standing in an empty cell, for every frame time and every
  combination of intents: the new x is taken exactly when the cell at
  (floor newX, floor y) is empty; the new y is taken exactly when the cell at
  (floor x, floor newY) is empty, x being the player's x at that moment, which is the
  already updated one; the player stands in an empty cell afterwards, whether
  the call returned or threw; if the x move is blocked and the y move is open the player
  advances to newY with x unchanged, and if the x move is open and the cell diagonally
  ahead is not empty the player advances to newX with y unchanged. The call throws
  exactly when floor newY is not a row of the map.
\<close>

theorem updatePlayer_axis_separated:
  assumes "emptyAt (plx p) (ply p)"
  shows "plx (afterCall (updatePlayer dt p))
           = (if emptyAt (newX dt p) (ply p) then newX dt p else plx p)
       \<and> ply (afterCall (updatePlayer dt p))
           = (if emptyAt (plx (afterCall (updatePlayer dt p))) (newY dt p)
              then newY dt p else ply p)
       \<and> emptyAt (plx (afterCall (updatePlayer dt p))) (ply (afterCall (updatePlayer dt p)))
       \<and> (\<not> emptyAt (newX dt p) (ply p) \<and> emptyAt (plx p) (newY dt p)
            \<longrightarrow> updatePlayer dt p = Inr ((turn dt p)\<lparr>ply := newY dt p\<rparr>))
       \<and> (emptyAt (newX dt p) (ply p)
            \<and> (\<exists>c. mapAt \<lfloor>newY dt p\<rfloor> \<lfloor>newX dt p\<rfloor> = Inr c \<and> c \<noteq> Some 0)
            \<longrightarrow> updatePlayer dt p = Inr ((turn dt p)\<lparr>plx := newX dt p\<rparr>))
       \<and> ((\<exists>e q. updatePlayer dt p = Inl (e, q))
            \<longleftrightarrow> \<not> (0 \<le> \<lfloor>newY dt p\<rfloor> \<and> \<lfloor>newY dt p\<rfloor> < mapHeight))"
proof -
  note a = afterCall_updatePlayer [OF assms, of dt]
  have x: "plx (afterCall (updatePlayer dt p))
           = (if emptyAt (newX dt p) (ply p) then newX dt p else plx p)"
    by (simp add: a)
  have y: "ply (afterCall (updatePlayer dt p))
           = (if emptyAt (plx (afterCall (updatePlayer dt p))) (newY dt p)
              then newY dt p else ply p)"
    by (simp add: a)
  have inv: "emptyAt (plx (afterCall (updatePlayer dt p))) (ply (afterCall (updatePlayer dt p)))"
    using assms by (simp add: a)
  obtain c where c: "mapAt \<lfloor>ply p\<rfloor> \<lfloor>newX dt p\<rfloor> = Inr c"
    using emptyAt_row [OF assms] by blast
  have same: "(turn dt p)\<lparr>plx := plx p\<rparr> = turn dt p"
    using turn_pos(1) [of dt p] by (cases "turn dt p") simp
  have slideY: "\<not> emptyAt (newX dt p) (ply p) \<and> emptyAt (plx p) (newY dt p)
            \<longrightarrow> updatePlayer dt p = Inr ((turn dt p)\<lparr>ply := newY dt p\<rparr>)"
    using c by (auto simp: updatePlayer_def Let_def turn_pos emptyAt_def)
  have slideX: "emptyAt (newX dt p) (ply p)
            \<and> (\<exists>c. mapAt \<lfloor>newY dt p\<rfloor> \<lfloor>newX dt p\<rfloor> = Inr c \<and> c \<noteq> Some 0)
            \<longrightarrow> updatePlayer dt p = Inr ((turn dt p)\<lparr>plx := newX dt p\<rparr>)"
    using c by (auto simp: updatePlayer_def Let_def turn_pos emptyAt_def)
  show ?thesis
    by (rule conjI [OF x conjI [OF y conjI [OF inv conjI [OF slideY conjI [OF slideX
          throws_iff [OF assms]]]]]])
qed

lemma cornered_vals:
  "plx cornered = 49 / 10" "ply cornered = 5 / 2"
  "newX (1 / 10) cornered = 26 / 5" "newY (1 / 10) cornered = 14 / 5"
  by (simp_all add: cornered_def initialPlayer_def newX_def newY_def turn_def moveX_def
      moveY_def moveSpeed_def normalizeAngle_id Let_def)

lemma cornered_cells:
  "emptyAt (49 / 10) (5 / 2)" "\<not> emptyAt (26 / 5) (5 / 2)" "emptyAt (49 / 10) (14 / 5)"
  by (simp_all add: emptyAt_def mapAt_def map_grid_def Let_def)

theorem updatePlayer_axis_separated_witness:
  "emptyAt (plx cornered) (ply cornered)
   \<and> \<not> emptyAt (newX (1 / 10) cornered) (ply cornered)
   \<and> emptyAt (plx cornered) (newY (1 / 10) cornered)
   \<and> plx (afterCall (updatePlayer (1 / 10) cornered)) = 49 / 10
   \<and> ply (afterCall (updatePlayer (1 / 10) cornered)) = 14 / 5
   \<and> emptyAt (plx (afterCall (updatePlayer (1 / 10) cornered)))
        (ply (afterCall (updatePlayer (1 / 10) cornered)))"
proof -
  have h: "emptyAt (plx cornered) (ply cornered)"
    by (simp only: cornered_vals cornered_cells)
  have b: "\<not> emptyAt (newX (1 / 10) cornered) (ply cornered)"
    by (simp only: cornered_vals cornered_cells not_False_eq_True)
  have o: "emptyAt (plx cornered) (newY (1 / 10) cornered)"
    by (simp only: cornered_vals cornered_cells)
  note th = updatePlayer_axis_separated [OF h, of "1 / 10"]
  from th have s: "\<not> emptyAt (newX (1 / 10) cornered) (ply cornered)
        \<and> emptyAt (plx cornered) (newY (1 / 10) cornered)
      \<longrightarrow> updatePlayer (1 / 10) cornered = Inr ((turn (1 / 10) cornered)\<lparr>ply := newY (1 / 10) cornered\<rparr>)"
    by (elim conjE)
  from th have inv: "emptyAt (plx (afterCall (updatePlayer (1 / 10) cornered)))
        (ply (afterCall (updatePlayer (1 / 10) cornered)))"
    by (elim conjE)
  have r: "updatePlayer (1 / 10) cornered = Inr ((turn (1 / 10) cornered)\<lparr>ply := newY (1 / 10) cornered\<rparr>)"
    by (rule mp [OF s conjI [OF b o]])
  have x: "plx (afterCall (updatePlayer (1 / 10) cornered)) = 49 / 10"
    by (simp add: r turn_pos cornered_vals)
  have y: "ply (afterCall (updatePlayer (1 / 10) cornered)) = 14 / 5"
    by (simp add: r cornered_vals)
  show ?thesis
    by (rule conjI [OF h conjI [OF b conjI [OF o conjI [OF x conjI [OF y inv]]]]])
qed

subsection \<open>Floor pass\<close>

lemma renderFrame_AsShipped: "renderFrame AsShipped tex cv p = Inl SyntaxError"
  by (simp add: renderFrame_def declaredNames_distinct)

lemma renderFrame_runs:
  assumes "ds \<noteq> AsShipped"
  shows "renderFrame ds tex cv p
     = Inr \<lparr>floorDrawn = drawFloorPerspective cv p [], wallPass = castRays ds tex cv p\<rparr>"
  using assms by (cases ds) (simp_all add: renderFrame_def Let_def declaredNames_distinct)

lemma visible_empty: "visible cv p [] yRow x"
  by (simp add: visible_def Let_def)

lemma example_floor:
  "floorHeight exampleCanvas = 240" "width exampleCanvas = 960"
  "rowDistance exampleCanvas 0 = Finite 480" "column exampleCanvas 0 = 0"
proof -
  show "floorHeight exampleCanvas = 240" by (simp add: floorHeight_def example_view)
  show "width exampleCanvas = 960" by (simp add: exampleCanvas_def)
  show "rowDistance exampleCanvas 0 = Finite 480" by (simp add: rowDistance_def example_view)
  show "column exampleCanvas 0 = 0" by (simp add: column_def)
qed

lemma turned_left: "leftDirX turned = 1" "leftDirY turned = 0"
  by (simp_all add: leftDirX_def leftDirY_def edge)

lemma far_pixel: "distSq exampleCanvas turned 0 0 = Finite 230400"
  by (simp add: distSq_def Let_def example_floor turned_left)

lemma zBuffer_edge:
  "fst (projr (castRays AfterOnly False cv turned)) ! 0 = 5 / 2"
  "fst (projr (castRays BeforeOnly False cv turned)) ! 0 = 5 / 2"
  "length (fst (projr (castRays AfterOnly False cv turned))) = 480"
  by (simp_all add: castRays_AfterOnly castRays_BeforeOnly numRays_def castRay_edge)

text \<open>
  Claim C2, as stated, fails. On a 960 by 560 canvas, with the player at the spawn point
  turned by half the field of view and the texture still loading (the wall pass then
  returns, with either group of duplicate declarations deleted): the frame's depth for
  the ray column of pixel 0 is 2.5, the floor pixel 0 of the first row below the horizon
  lies 480 away from the player (squared distance 230400 against 6.25), and the frame
  draws it.
\<close>

theorem floor_drawn_behind_wall:
  "\<not> isl (renderFrame AfterOnly False exampleCanvas turned)
   \<and> fst (projr (wallPass (projr (renderFrame AfterOnly False exampleCanvas turned))))
       ! nat (column exampleCanvas 0) = 5 / 2
   \<and> floorDrawn (projr (renderFrame AfterOnly False exampleCanvas turned)) 0 0
   \<and> \<not> isl (renderFrame BeforeOnly False exampleCanvas turned)
   \<and> fst (projr (wallPass (projr (renderFrame BeforeOnly False exampleCanvas turned))))
       ! nat (column exampleCanvas 0) = 5 / 2
   \<and> floorDrawn (projr (renderFrame BeforeOnly False exampleCanvas turned)) 0 0
   \<and> distSq exampleCanvas turned 0 0 = Finite 230400
   \<and> numGreater (distSq exampleCanvas turned 0 0) ((5 / 2) * (5 / 2))"
  by (simp add: renderFrame_runs example_floor zBuffer_edge far_pixel drawFloorPerspective_def
      visible_empty)

text \<open>
  Claim C2, amended. \<^verbatim>\<open>drawFloorPerspective(zBuffer)\<close> writes a pixel of the floor image
  unless its column index floor(x / stripWidth) is an index of the array it was given and
  its squared distance from the player exceeds the square of that entry. The frame loop
  calls it with an empty array, before it calls \<^verbatim>\<open>castRays\<close>: in every frame that is
  rendered, every pixel of the floor image is written, and the wall pass of the frame is
  the result of that later call. As shipped the script renders no frame.
\<close>

theorem floor_occlusion:
  "(drawFloorPerspective cv p zBuffer yRow x \<longleftrightarrow>
      real yRow < floorHeight cv \<and> int x < width cv
      \<and> \<not> (0 \<le> column cv x \<and> column cv x < int (length zBuffer)
           \<and> numGreater (distSq cv p yRow x)
                (zBuffer ! nat (column cv x) * zBuffer ! nat (column cv x))))
   \<and> renderFrame AsShipped tex cv p = Inl SyntaxError
   \<and> (ds \<noteq> AsShipped \<longrightarrow>
        \<not> isl (renderFrame ds tex cv p)
        \<and> (floorDrawn (projr (renderFrame ds tex cv p)) yRow x
             \<longleftrightarrow> real yRow < floorHeight cv \<and> int x < width cv)
        \<and> wallPass (projr (renderFrame ds tex cv p)) = castRays ds tex cv p)"
proof (intro conjI impI)
  show "drawFloorPerspective cv p zBuffer yRow x \<longleftrightarrow>
      real yRow < floorHeight cv \<and> int x < width cv
      \<and> \<not> (0 \<le> column cv x \<and> column cv x < int (length zBuffer)
           \<and> numGreater (distSq cv p yRow x)
                (zBuffer ! nat (column cv x) * zBuffer ! nat (column cv x)))"
    by (auto simp: drawFloorPerspective_def visible_def Let_def)
  show "renderFrame AsShipped tex cv p = Inl SyntaxError"
    by (rule renderFrame_AsShipped)
next
  assume ds: "ds \<noteq> AsShipped"
  note run = renderFrame_runs [OF ds, of tex cv p]
  show "\<not> isl (renderFrame ds tex cv p)" by (simp add: run)
  show "floorDrawn (projr (renderFrame ds tex cv p)) yRow x
      \<longleftrightarrow> real yRow < floorHeight cv \<and> int x < width cv"
    by (simp add: run drawFloorPerspective_def visible_empty)
  show "wallPass (projr (renderFrame ds tex cv p)) = castRays ds tex cv p"
    by (simp add: run)
qed

lemma odd_view:
  "screenHeight oddCanvas = 481" "horizon oddCanvas = 240" "floorHeight oddCanvas = 241"
  "width oddCanvas = 960" "column oddCanvas 0 = 0"
proof -
  show s: "screenHeight oddCanvas = 481"
    by (simp add: screenHeight_def oddCanvas_def hudHeight_def)
  have "\<lfloor>481 / 2 :: real\<rfloor> = 240" by linarith
  then show h: "horizon oddCanvas = 240" by (simp add: horizon_def s)
  show "floorHeight oddCanvas = 241" by (simp add: floorHeight_def s h)
  show "width oddCanvas = 960" by (simp add: oddCanvas_def)
  show "column oddCanvas 0 = 0" by (simp add: column_def)
qed

lemma rowDistance_odd: "rowDistance oddCanvas 0 = PosInf"
  by (simp add: rowDistance_def odd_view)

lemma spawn_left: "0 < leftDirX initialPlayer" "leftDirY initialPlayer < 0"
proof -
  have a: "0 < FOV / 2" "FOV / 2 < pi / 2" "FOV / 2 < pi"
    by (simp_all add: FOV_def)
  have "leftDirX initialPlayer = cos (FOV / 2)"
    by (simp add: leftDirX_def initialPlayer_def)
  then show "0 < leftDirX initialPlayer" using cos_half_FOV(1) by simp
  have "0 < sin (FOV / 2)" using a by (intro sin_gt_zero) auto
  moreover have "leftDirY initialPlayer = - sin (FOV / 2)"
    by (simp add: leftDirY_def initialPlayer_def)
  ultimately show "leftDirY initialPlayer < 0" by simp
qed

lemma infinite_pixel: "distSq oddCanvas initialPlayer 0 0 = PosInf"
  using spawn_left by (simp add: distSq_def Let_def rowDistance_odd)

lemma zBuffer_spawn:
  "length (fst (projr (castRays AfterOnly False cv p))) = 480"
  by (simp add: castRays_AfterOnly numRays_def)

theorem floor_occlusion_witness:
  "AfterOnly \<noteq> AsShipped
   \<and> \<not> drawFloorPerspective exampleCanvas turned
         (fst (projr (castRays AfterOnly False exampleCanvas turned))) 0 0
   \<and> floorDrawn (projr (renderFrame AfterOnly False exampleCanvas turned)) 0 0
   \<and> fst (projr (wallPass (projr (renderFrame AfterOnly False exampleCanvas turned)))) ! 0 = 5 / 2
   \<and> \<not> drawFloorPerspective oddCanvas initialPlayer
         (fst (projr (castRays AfterOnly False oddCanvas initialPlayer))) 0 0
   \<and> floorDrawn (projr (renderFrame AfterOnly True oddCanvas initialPlayer)) 0 0
   \<and> wallPass (projr (renderFrame AfterOnly True oddCanvas initialPlayer)) = Inl ReferenceError"
proof -
  have ds: "AfterOnly \<noteq> AsShipped" by simp
  note th = floor_occlusion [of exampleCanvas turned
      "fst (projr (castRays AfterOnly False exampleCanvas turned))" 0 0 False AfterOnly]
  from th have a: "drawFloorPerspective exampleCanvas turned
        (fst (projr (castRays AfterOnly False exampleCanvas turned))) 0 0 \<longleftrightarrow>
      real (0::nat) < floorHeight exampleCanvas \<and> int 0 < width exampleCanvas
      \<and> \<not> (0 \<le> column exampleCanvas 0
           \<and> column exampleCanvas 0
               < int (length (fst (projr (castRays AfterOnly False exampleCanvas turned))))
           \<and> numGreater (distSq exampleCanvas turned 0 0)
                (fst (projr (castRays AfterOnly False exampleCanvas turned)) ! nat (column exampleCanvas 0)
                 * fst (projr (castRays AfterOnly False exampleCanvas turned)) ! nat (column exampleCanvas 0)))"
    by (elim conjE)
  from th have "AfterOnly \<noteq> AsShipped \<longrightarrow>
        \<not> isl (renderFrame AfterOnly False exampleCanvas turned)
        \<and> (floorDrawn (projr (renderFrame AfterOnly False exampleCanvas turned)) 0 0
             \<longleftrightarrow> real (0::nat) < floorHeight exampleCanvas \<and> int 0 < width exampleCanvas)
        \<and> wallPass (projr (renderFrame AfterOnly False exampleCanvas turned))
            = castRays AfterOnly False exampleCanvas turned"
    by (elim conjE)
  note r = mp [OF this ds]
  from r have b: "floorDrawn (projr (renderFrame AfterOnly False exampleCanvas turned)) 0 0
             \<longleftrightarrow> real (0::nat) < floorHeight exampleCanvas \<and> int 0 < width exampleCanvas"
    by (elim conjE)
  from r have c: "wallPass (projr (renderFrame AfterOnly False exampleCanvas turned))
            = castRays AfterOnly False exampleCanvas turned"
    by (elim conjE)
  have a': "\<not> drawFloorPerspective exampleCanvas turned
         (fst (projr (castRays AfterOnly False exampleCanvas turned))) 0 0"
    by (simp add: a example_floor zBuffer_edge far_pixel)
  have b': "floorDrawn (projr (renderFrame AfterOnly False exampleCanvas turned)) 0 0"
    by (simp add: b example_floor)
  have c': "fst (projr (wallPass (projr (renderFrame AfterOnly False exampleCanvas turned)))) ! 0 = 5 / 2"
    by (simp add: c zBuffer_edge)
  note th2 = floor_occlusion [of oddCanvas initialPlayer
      "fst (projr (castRays AfterOnly False oddCanvas initialPlayer))" 0 0 True AfterOnly]
  from th2 have d: "drawFloorPerspective oddCanvas initialPlayer
        (fst (projr (castRays AfterOnly False oddCanvas initialPlayer))) 0 0 \<longleftrightarrow>
      real (0::nat) < floorHeight oddCanvas \<and> int 0 < width oddCanvas
      \<and> \<not> (0 \<le> column oddCanvas 0
           \<and> column oddCanvas 0
               < int (length (fst (projr (castRays AfterOnly False oddCanvas initialPlayer))))
           \<and> numGreater (distSq oddCanvas initialPlayer 0 0)
                (fst (projr (castRays AfterOnly False oddCanvas initialPlayer)) ! nat (column oddCanvas 0)
                 * fst (projr (castRays AfterOnly False oddCanvas initialPlayer)) ! nat (column oddCanvas 0)))"
    by (elim conjE)
  from th2 have "AfterOnly \<noteq> AsShipped \<longrightarrow>
        \<not> isl (renderFrame AfterOnly True oddCanvas initialPlayer)
        \<and> (floorDrawn (projr (renderFrame AfterOnly True oddCanvas initialPlayer)) 0 0
             \<longleftrightarrow> real (0::nat) < floorHeight oddCanvas \<and> int 0 < width oddCanvas)
        \<and> wallPass (projr (renderFrame AfterOnly True oddCanvas initialPlayer))
            = castRays AfterOnly True oddCanvas initialPlayer"
    by (elim conjE)
  note r2 = mp [OF this ds]
  from r2 have e: "floorDrawn (projr (renderFrame AfterOnly True oddCanvas initialPlayer)) 0 0
             \<longleftrightarrow> real (0::nat) < floorHeight oddCanvas \<and> int 0 < width oddCanvas"
    by (elim conjE)
  from r2 have g: "wallPass (projr (renderFrame AfterOnly True oddCanvas initialPlayer))
            = castRays AfterOnly True oddCanvas initialPlayer"
    by (elim conjE)
  have d': "\<not> drawFloorPerspective oddCanvas initialPlayer
         (fst (projr (castRays AfterOnly False oddCanvas initialPlayer))) 0 0"
    by (simp add: d odd_view zBuffer_spawn infinite_pixel)
  have e': "floorDrawn (projr (renderFrame AfterOnly True oddCanvas initialPlayer)) 0 0"
    by (simp add: e odd_view)
  have g': "wallPass (projr (renderFrame AfterOnly True oddCanvas initialPlayer)) = Inl ReferenceError"
    by (simp only: g castRays_texture)
  show ?thesis
    by (rule conjI [OF ds conjI [OF a' conjI [OF b' conjI [OF c' conjI [OF d' conjI [OF e' g']]]]]])
qed

end
